theory Spec2Isabelle
  imports Main "HOL-Library.Word"
begin

section \<open>The RDO Map Overlay launcher (launcher.cpp)\<close>

text \<open>
  The launcher is orchestration over Win32 calls. The model makes the operating system an
  explicit parameter \<open>os\<close> (what the file system, \<open>CreateProcessW\<close>, the socket probes and
  the process wait answer) and makes every observable effect an \<open>event\<close>; each member
  function of \<open>RDOLauncher\<close> becomes a function from the object's state to its return value,
  the new state and the events it emitted, in program order.

  A \<open>std::wstring\<close> is a \<open>string\<close>: the code only concatenates paths and never looks
  inside them. A \<open>HANDLE\<close> is a number, \<open>0\<close> being \<open>NULL\<close>.
\<close>

subsection \<open>Data\<close>

type_synonym wstring = string
type_synonym HANDLE = nat
type_synonym DWORD = "32 word"

record PROCESS_INFORMATION =
  hProcess :: HANDLE
  hThread :: HANDLE
  dwProcessId :: DWORD
  dwThreadId :: DWORD

text \<open>\<open>PROCESS_INFORMATION x = {0}\<close>\<close>

definition zeroProcess :: PROCESS_INFORMATION where
  "zeroProcess = \<lparr>hProcess = 0, hThread = 0, dwProcessId = 0, dwThreadId = 0\<rparr>"

text \<open>
  \<open>STARTUPINFOW\<close>: the two fields that decide whether the window is shown. \<open>cb\<close> is
  always the size of the structure and every other field stays zero.
\<close>

record STARTUPINFOW =
  dwFlags :: DWORD
  wShowWindow :: "16 word"

text \<open>Values of \<open>windows.h\<close>.\<close>

definition STARTF_USESHOWWINDOW :: DWORD where
  "STARTF_USESHOWWINDOW = 1"

definition SW_HIDE :: "16 word" where
  "SW_HIDE = 0"

definition CREATE_NEW_CONSOLE :: DWORD where
  "CREATE_NEW_CONSOLE = 16"

text \<open>The private members of \<open>class RDOLauncher\<close>.\<close>

record RDOLauncher =
  installPath :: wstring
  backendProcess :: PROCESS_INFORMATION
  frontendProcess :: PROCESS_INFORMATION
  debugMode :: bool

text \<open>
  One \<open><<\<close> insertion into a wide stream: a string, an \<open>int\<close> or a \<open>DWORD\<close>. A log line
  is the list of its insertions up to \<open>std::endl\<close>.
\<close>

datatype item = S wstring | I int | D DWORD

text \<open>
  The effects of the program. \<open>CreateProcess\<close> carries the command line, the creation
  flags, the working directory and the startup information; \<open>Connect\<close> carries the TCP
  port of the attempt and whether \<open>connect\<close> returned \<open>0\<close>.
\<close>

datatype event =
    WCout "item list"
  | WCerr "item list"
  | MessageBox wstring wstring
  | CreateProcess wstring DWORD wstring STARTUPINFOW
  | SocketFailed
  | Connect nat bool
  | SleepMs nat
  | WaitForSingleObject HANDLE
  | TerminateProcess HANDLE nat
  | CloseHandle HANDLE
  | WSAStartup
  | WSACleanup
  | AllocConsole
  | FreeConsole

text \<open>
  One pass of the polling loop as the operating system answers it: whether \<open>socket\<close>
  returned a socket, whether \<open>connect\<close> returned \<open>0\<close>, the nanoseconds that passed from
  the start of the pass to the reading of the clock, and the nanoseconds by which
  \<open>sleep_for\<close> overslept (it blocks for at least the time asked).
\<close>

record probe =
  socket_ok :: bool
  connect_ok :: bool
  took :: nat
  overslept :: nat

text \<open>
  The operating system. \<open>PathFileExistsW\<close> answers by path. \<open>CreateProcessW\<close> answers
  by command line and working directory: \<open>Inr\<close> the process information it writes on
  success, \<open>Inl\<close> the code \<open>GetLastError\<close> gives after a failure; on failure the
  caller's \<open>PROCESS_INFORMATION\<close> is left as it was. \<open>probes\<close> answers the passes of the
  polling loop by their number, \<open>clock0\<close> is the reading of the steady clock (in
  nanoseconds) when the loop is entered. \<open>exits h\<close> tells whether the process behind \<open>h\<close>
  ever exits, that is, whether \<open>WaitForSingleObject(h, INFINITE)\<close> returns.

  What the model takes from the platform: the steady clock never goes back and a pass of
  the polling loop ends (\<open>took\<close> is a natural number), \<open>sleep_for\<close> blocks for at least
  the time asked, nanosecond counts do not overflow (a 32-bit number of seconds fits the
  64-bit nanosecond count), and a modal \<open>MessageBoxW\<close> is dismissed.
\<close>

record os =
  GetExecutablePath :: wstring
  PathFileExistsW :: "wstring \<Rightarrow> bool"
  CreateProcessW :: "wstring \<Rightarrow> wstring \<Rightarrow> DWORD + PROCESS_INFORMATION"
  probes :: "nat \<Rightarrow> probe"
  clock0 :: int
  exits :: "HANDLE \<Rightarrow> bool"

subsection \<open>Paths and messages\<close>

definition bslash :: wstring where
  "bslash = [CHR 0x5C]"

definition dquote :: wstring where
  "dquote = [CHR 0x22]"

definition newline :: wstring where
  "newline = [CHR 0x0A]"

definition pythonPath :: "RDOLauncher \<Rightarrow> wstring" where
  "pythonPath L = installPath L @ bslash @ ''runtime'' @ bslash @ ''python'' @ bslash @ ''python.exe''"

definition electronPath :: "RDOLauncher \<Rightarrow> wstring" where
  "electronPath L = installPath L @ bslash @ ''electron'' @ bslash @ ''electron.exe''"

definition backendPath :: "RDOLauncher \<Rightarrow> wstring" where
  "backendPath L = installPath L @ bslash @ ''app'' @ bslash @ ''backend'' @ bslash @ ''app.py''"

definition frontendPath :: "RDOLauncher \<Rightarrow> wstring" where
  "frontendPath L = installPath L @ bslash @ ''app'' @ bslash @ ''main.js''"

definition appPath :: "RDOLauncher \<Rightarrow> wstring" where
  "appPath L = installPath L @ bslash @ ''app''"

definition dialogTitle :: wstring where
  "dialogTitle = ''RDO Map Overlay - Launch Error''"

subsection \<open>Private member functions\<close>

definition CheckDependency :: "os \<Rightarrow> wstring \<Rightarrow> wstring \<Rightarrow> bool \<times> event list" where
  "CheckDependency w path name =
     (if \<not> PathFileExistsW w path
      then (False, [WCerr [S ''Error: '', S name, S '' not found at: '', S path]])
      else (True, []))"

definition ShowErrorDialog :: "wstring \<Rightarrow> event list" where
  "ShowErrorDialog message = [MessageBox message dialogTitle]"

subsection \<open>VerifyInstallation\<close>

definition VerifyInstallation :: "os \<Rightarrow> RDOLauncher \<Rightarrow> bool \<times> event list" where
  "VerifyInstallation w L =
     (let e0 = [WCout [S ''Verifying installation...'']];
          (ok1, e1) = CheckDependency w (pythonPath L) ''Python runtime''
      in if \<not> ok1 then (False, e0 @ e1)
      else let (ok2, e2) = CheckDependency w (electronPath L) ''Electron runtime''
      in if \<not> ok2 then (False, e0 @ e1 @ e2)
      else let (ok3, e3) = CheckDependency w (backendPath L) ''Backend application''
      in if \<not> ok3 then (False, e0 @ e1 @ e2 @ e3)
      else let (ok4, e4) = CheckDependency w (frontendPath L) ''Frontend application''
      in if \<not> ok4 then (False, e0 @ e1 @ e2 @ e3 @ e4)
      else (True, e0 @ e1 @ e2 @ e3 @ e4 @ [WCout [S ''Installation verified successfully'']]))"

subsection \<open>StartProcess\<close>

text \<open>
  \<open>processInfo\<close> is the reference parameter: the function returns what the referenced
  record holds afterwards. The code writes to it nowhere; only \<open>CreateProcessW\<close> does,
  on success.
\<close>

definition StartProcess ::
  "os \<Rightarrow> RDOLauncher \<Rightarrow> wstring \<Rightarrow> wstring \<Rightarrow> PROCESS_INFORMATION \<Rightarrow> bool
     \<Rightarrow> bool \<times> PROCESS_INFORMATION \<times> event list" where
  "StartProcess w L executable arguments processInfo showWindow =
     (let startupInfo0 = \<lparr>dwFlags = 0, wShowWindow = 0\<rparr>;
          startupInfo = (if \<not> showWindow
                         then startupInfo0\<lparr>dwFlags := STARTF_USESHOWWINDOW, wShowWindow := SW_HIDE\<rparr>
                         else startupInfo0);
          cmdLine = dquote @ executable @ dquote @ '' '' @ arguments;
          call = CreateProcess cmdLine CREATE_NEW_CONSOLE (installPath L) startupInfo
      in case CreateProcessW w cmdLine (installPath L) of
           Inr written \<Rightarrow> (True, written, [call])
         | Inl error \<Rightarrow>
             (False, processInfo,
              [call, WCerr [S ''Failed to start process: '', S executable,
                            S '' (Error: '', D error, S '')'']]))"

subsection \<open>WaitForPort\<close>

text \<open>
  \<open>addr.sin_port = htons(port)\<close>: the \<open>int\<close> is converted to \<open>u_short\<close>, so the TCP port
  of the attempt is \<open>port\<close> modulo \<open>2 ^ 16\<close>.
\<close>

definition sin_port :: "32 word \<Rightarrow> nat" where
  "sin_port port = unat (ucast port :: 16 word)"

definition readyLine :: event where
  "readyLine = WCout [S ''Backend is ready!'']"

definition timeoutLine :: event where
  "timeoutLine = WCerr [S ''Timeout waiting for backend'']"

text \<open>
  The \<open>while (true)\<close> loop. \<open>i\<close> numbers the pass, \<open>t\<close> is the steady clock when the pass
  starts; times are nanoseconds. The result is the clock reading at the \<open>break\<close> and the
  events of the loop. The loop ends because every pass that does not break sleeps for at
  least 500 ms, which the termination proof below uses.
\<close>

function WaitForPort_loop ::
  "os \<Rightarrow> nat \<Rightarrow> int \<Rightarrow> int \<Rightarrow> nat \<Rightarrow> int \<Rightarrow> int \<times> event list" where
  "WaitForPort_loop w p startTime timeout i t =
     (if socket_ok (probes w i) \<and> connect_ok (probes w i)
      then (t + int (took (probes w i)), [Connect p True, readyLine])
      else if t + int (took (probes w i)) - startTime > timeout
      then (t + int (took (probes w i)),
            [if socket_ok (probes w i) then Connect p False else SocketFailed, timeoutLine])
      else (case WaitForPort_loop w p startTime timeout (Suc i)
                   (t + int (took (probes w i)) + 500000000 + int (overslept (probes w i))) of
              (t', es) \<Rightarrow>
                (t', (if socket_ok (probes w i) then Connect p False else SocketFailed)
                       # SleepMs 500 # es)))"
  by pat_completeness auto
termination
  by (relation "measure (\<lambda>(w, p, startTime, timeout, i, t). nat (timeout - (t - startTime) + 1))")
     auto

definition WaitForPort :: "os \<Rightarrow> 32 word \<Rightarrow> 32 word \<Rightarrow> int \<times> event list" where
  "WaitForPort w port timeoutSeconds =
     (let startTime = clock0 w;
          timeout = sint timeoutSeconds * 1000000000;
          (t', es) = WaitForPort_loop w (sin_port port) startTime timeout 0 startTime
      in (t', WCout [S ''Waiting for backend on port '', I (sint port), S ''...''] # es))"

subsection \<open>Public member functions\<close>

definition backendArguments :: "RDOLauncher \<Rightarrow> wstring" where
  "backendArguments L = dquote @ backendPath L @ dquote"

definition backendFailedMessage :: wstring where
  "backendFailedMessage =
     ''Failed to start backend process.'' @ newline @ newline @
     ''Please check that Python dependencies are installed correctly.''"

definition StartBackend :: "os \<Rightarrow> RDOLauncher \<Rightarrow> bool \<times> RDOLauncher \<times> event list" where
  "StartBackend w L =
     (let e0 = [WCout [S ''Starting backend...'']];
          (ok, written, e1) =
             StartProcess w L (pythonPath L) (backendArguments L) (backendProcess L) (debugMode L);
          L1 = L\<lparr>backendProcess := written\<rparr>
      in if \<not> ok then (False, L1, e0 @ e1 @ ShowErrorDialog backendFailedMessage)
         else (True, L1, e0 @ e1 @ snd (WaitForPort w 5000 30)))"

definition frontendArguments :: "RDOLauncher \<Rightarrow> wstring" where
  "frontendArguments L = dquote @ appPath L @ dquote"

definition frontendFailedMessage :: wstring where
  "frontendFailedMessage =
     ''Failed to start Electron frontend.'' @ newline @ newline @
     ''Please check that the application files are intact.''"

definition StartFrontend :: "os \<Rightarrow> RDOLauncher \<Rightarrow> bool \<times> RDOLauncher \<times> event list" where
  "StartFrontend w L =
     (let e0 = [WCout [S ''Starting frontend...'']];
          (ok, written, e1) =
             StartProcess w L (electronPath L) (frontendArguments L) (frontendProcess L) True;
          L1 = L\<lparr>frontendProcess := written\<rparr>
      in if \<not> ok then (False, L1, e0 @ e1 @ ShowErrorDialog frontendFailedMessage)
         else (True, L1, e0 @ e1))"

text \<open>
  \<open>WaitForExit\<close> returns whether the call returns at all: the wait has no timeout, so
  it blocks for ever when the frontend never exits.
\<close>

definition WaitForExit :: "os \<Rightarrow> RDOLauncher \<Rightarrow> bool \<times> event list" where
  "WaitForExit w L =
     (if hProcess (frontendProcess L) \<noteq> 0
      then (exits w (hProcess (frontendProcess L)),
            [WaitForSingleObject (hProcess (frontendProcess L))])
      else (True, []))"

text \<open>\<open>Cleanup\<close> assigns to no member, so the state it returns is the one it was given.\<close>

definition Cleanup :: "RDOLauncher \<Rightarrow> RDOLauncher \<times> event list" where
  "Cleanup L =
     (L,
      (if hProcess (backendProcess L) \<noteq> 0
       then [TerminateProcess (hProcess (backendProcess L)) 0,
             CloseHandle (hProcess (backendProcess L)),
             CloseHandle (hThread (backendProcess L))]
       else []) @
      (if hProcess (frontendProcess L) \<noteq> 0
       then [CloseHandle (hProcess (frontendProcess L)),
             CloseHandle (hThread (frontendProcess L))]
       else []))"

definition incompleteMessage :: wstring where
  "incompleteMessage =
     ''Installation appears to be incomplete.'' @ newline @ newline @
     ''Please reinstall the application.''"

text \<open>
  \<open>Run\<close> gives \<open>Some\<close> exit code when it returns and \<open>None\<close> when it blocks for ever in
  \<open>WaitForExit\<close>.
\<close>

definition Run :: "os \<Rightarrow> RDOLauncher \<Rightarrow> int option \<times> RDOLauncher \<times> event list" where
  "Run w L =
     (let (ok1, e1) = VerifyInstallation w L
      in if \<not> ok1 then (Some 1, L, e1 @ ShowErrorDialog incompleteMessage)
      else let (ok2, L2, e2) = StartBackend w L
      in if \<not> ok2 then (Some 2, L2, e1 @ e2)
      else let (ok3, L3, e3) = StartFrontend w L2
      in if \<not> ok3 then (Some 3, L3, e1 @ e2 @ [SleepMs 1000] @ e3)
      else let (returned, e4) = WaitForExit w L3
      in (if returned then Some 0 else None, L3, e1 @ e2 @ [SleepMs 1000] @ e3 @ e4))"

text \<open>
  The constructor and the destructor. The redirection of \<open>stdout\<close> and \<open>stderr\<close> to the
  console allocated in debug mode is not an event of its own.
\<close>

definition RDOLauncher_ctor :: "os \<Rightarrow> RDOLauncher \<times> event list" where
  "RDOLauncher_ctor w =
     (let path = GetExecutablePath w;
          dbg = PathFileExistsW w (path @ bslash @ ''debug.txt'')
      in (\<lparr>installPath = path, backendProcess = zeroProcess, frontendProcess = zeroProcess,
           debugMode = dbg\<rparr>,
          WSAStartup # (if dbg then [AllocConsole] else [])))"

definition RDOLauncher_dtor :: "RDOLauncher \<Rightarrow> event list" where
  "RDOLauncher_dtor L =
     snd (Cleanup L) @ [WSACleanup] @ (if debugMode L then [FreeConsole] else [])"

text \<open>
  \<open>WinMain\<close> (and \<open>main\<close>, which has the same body): the exit code of the process and all
  its events. The destructor runs when \<open>Run\<close> has returned.
\<close>

definition WinMain :: "os \<Rightarrow> int option \<times> event list" where
  "WinMain w =
     (let (launcher, e0) = RDOLauncher_ctor w;
          (code, launcher', e1) = Run w launcher
      in case code of
           None \<Rightarrow> (None, e0 @ e1)
         | Some c \<Rightarrow> (Some c, e0 @ e1 @ RDOLauncher_dtor launcher'))"

subsection \<open>Vocabulary of the properties\<close>

text \<open>The command lines \<open>StartProcess\<close> builds for the two children.\<close>

definition backendCmdLine :: "RDOLauncher \<Rightarrow> wstring" where
  "backendCmdLine L = dquote @ pythonPath L @ dquote @ '' '' @ dquote @ backendPath L @ dquote"

definition frontendCmdLine :: "RDOLauncher \<Rightarrow> wstring" where
  "frontendCmdLine L = dquote @ electronPath L @ dquote @ '' '' @ dquote @ appPath L @ dquote"

text \<open>
  The command line the specification gives the frontend: the quoted UI-runtime binary
  followed by the quoted install root.
\<close>

definition specFrontendCmdLine :: "RDOLauncher \<Rightarrow> wstring" where
  "specFrontendCmdLine L =
     dquote @ electronPath L @ dquote @ '' '' @ dquote @ installPath L @ dquote"

text \<open>The four dependencies in the order of the checks, each with the name it is logged under.\<close>

definition dependencies :: "RDOLauncher \<Rightarrow> (wstring \<times> wstring) list" where
  "dependencies L =
     [(pythonPath L, ''Python runtime''),
      (electronPath L, ''Electron runtime''),
      (backendPath L, ''Backend application''),
      (frontendPath L, ''Frontend application'')]"

fun first_missing :: "os \<Rightarrow> (wstring \<times> wstring) list \<Rightarrow> (wstring \<times> wstring) option" where
  "first_missing w [] = None"
| "first_missing w ((path, name) # ds) =
     (if PathFileExistsW w path then first_missing w ds else Some (path, name))"

text \<open>Kinds of events.\<close>

fun is_spawn :: "event \<Rightarrow> bool" where
  "is_spawn (CreateProcess _ _ _ _) = True"
| "is_spawn _ = False"

fun spawn_of :: "wstring \<Rightarrow> event \<Rightarrow> bool" where
  "spawn_of c (CreateProcess cmdLine _ _ _) = (cmdLine = c)"
| "spawn_of c _ = False"

fun is_terminate :: "event \<Rightarrow> bool" where
  "is_terminate (TerminateProcess _ _) = True"
| "is_terminate _ = False"

fun is_wait :: "event \<Rightarrow> bool" where
  "is_wait (WaitForSingleObject _) = True"
| "is_wait _ = False"

fun is_sleep :: "event \<Rightarrow> bool" where
  "is_sleep (SleepMs _) = True"
| "is_sleep _ = False"

fun is_connected :: "event \<Rightarrow> bool" where
  "is_connected (Connect _ ok) = ok"
| "is_connected _ = False"

fun failed_attempt :: "nat \<Rightarrow> event \<Rightarrow> bool" where
  "failed_attempt p (Connect q ok) = (q = p \<and> \<not> ok)"
| "failed_attempt p SocketFailed = True"
| "failed_attempt p _ = False"

definition port_verdict :: "event \<Rightarrow> bool" where
  "port_verdict e = (e = readyLine \<or> e = timeoutLine)"

text \<open>The handles an event terminates or closes.\<close>

fun released :: "event \<Rightarrow> HANDLE list" where
  "released (TerminateProcess h _) = [h]"
| "released (CloseHandle h) = [h]"
| "released _ = []"

text \<open>Events that create, await, terminate or close a process.\<close>

fun process_event :: "event \<Rightarrow> bool" where
  "process_event (CreateProcess _ _ _ _) = True"
| "process_event (WaitForSingleObject _) = True"
| "process_event (TerminateProcess _ _) = True"
| "process_event (CloseHandle _) = True"
| "process_event _ = False"

text \<open>The handles a call of \<open>CreateProcessW\<close> hands out.\<close>

fun handles_of :: "DWORD + PROCESS_INFORMATION \<Rightarrow> HANDLE list" where
  "handles_of (Inl _) = []"
| "handles_of (Inr r) = [hProcess r, hThread r]"

text \<open>
  What \<open>CreateProcessW\<close> gives as the frontend's process handle (\<open>0\<close> when the spawn
  fails), and whether it reports success with a null process handle.
\<close>

definition frontend_handle :: "os \<Rightarrow> RDOLauncher \<Rightarrow> HANDLE" where
  "frontend_handle w L =
     (case CreateProcessW w (frontendCmdLine L) (installPath L) of
        Inl _ \<Rightarrow> 0 | Inr r \<Rightarrow> hProcess r)"

definition null_frontend :: "os \<Rightarrow> RDOLauncher \<Rightarrow> bool" where
  "null_frontend w L =
     (case CreateProcessW w (frontendCmdLine L) (installPath L) of
        Inl _ \<Rightarrow> False | Inr r \<Rightarrow> hProcess r = 0)"

text \<open>
  Events after which the frontend with process handle \<open>h\<close> is no longer there: the wait
  on that very handle, or the dialog telling that the frontend could not be started.
\<close>

fun frontend_over :: "HANDLE \<Rightarrow> event \<Rightarrow> bool" where
  "frontend_over h (WaitForSingleObject h') = (h' = h)"
| "frontend_over h (MessageBox message _) = (message = frontendFailedMessage)"
| "frontend_over h _ = False"

text \<open>The two \<open>CreateProcessW\<close> calls of the launcher, as events.\<close>

definition backendSpawn :: "RDOLauncher \<Rightarrow> event" where
  "backendSpawn L =
     CreateProcess (backendCmdLine L) CREATE_NEW_CONSOLE (installPath L)
       (if debugMode L then \<lparr>dwFlags = 0, wShowWindow = 0\<rparr>
        else \<lparr>dwFlags = STARTF_USESHOWWINDOW, wShowWindow = SW_HIDE\<rparr>)"

definition frontendSpawn :: "RDOLauncher \<Rightarrow> event" where
  "frontendSpawn L =
     CreateProcess (frontendCmdLine L) CREATE_NEW_CONSOLE (installPath L)
       \<lparr>dwFlags = 0, wShowWindow = 0\<rparr>"

text \<open>
  The shape of a poll of port \<open>p\<close>: failed passes, each followed by a sleep of 500 ms,
  and then either a successful \<open>connect\<close> with the ready line or a last failed pass with
  the timeout line. Nothing follows the verdict.
\<close>

fun polling :: "nat \<Rightarrow> event list \<Rightarrow> bool" where
  "polling p [a, v] =
     ((a = Connect p True \<and> v = readyLine) \<or> (failed_attempt p a \<and> v = timeoutLine))"
| "polling p (a # s # es) = (failed_attempt p a \<and> s = SleepMs 500 \<and> polling p es)"
| "polling p _ = False"








text \<open>
  \<open>precedes P Q es\<close>: no event with \<open>Q\<close> occurs in \<open>es\<close> unless an event with \<open>P\<close> has
  occurred before it.
\<close>

fun precedes :: "(event \<Rightarrow> bool) \<Rightarrow> (event \<Rightarrow> bool) \<Rightarrow> event list \<Rightarrow> bool" where
  "precedes P Q [] = True"
| "precedes P Q (e # es) = (if P e then True else if Q e then False else precedes P Q es)"

text \<open>
  A window is hidden when the startup information asks for \<open>SW_HIDE\<close> and flags the
  request with \<open>STARTF_USESHOWWINDOW\<close>.
\<close>

definition hidden :: "STARTUPINFOW \<Rightarrow> bool" where
  "hidden si = (and (dwFlags si) STARTF_USESHOWWINDOW \<noteq> 0 \<and> wShowWindow si = SW_HIDE)"

text \<open>
  A process record is owned when it is still zero or is what \<open>CreateProcessW\<close> wrote for
  the given command line.
\<close>

definition owned :: "os \<Rightarrow> RDOLauncher \<Rightarrow> wstring \<Rightarrow> PROCESS_INFORMATION \<Rightarrow> bool" where
  "owned w L cmdLine r = (r = zeroProcess \<or> CreateProcessW w cmdLine (installPath L) = Inr r)"

definition records_owned :: "os \<Rightarrow> RDOLauncher \<Rightarrow> bool" where
  "records_owned w L =
     (owned w L (backendCmdLine L) (backendProcess L) \<and>
      owned w L (frontendCmdLine L) (frontendProcess L))"

subsection \<open>Sample installations\<close>

definition demoPath :: wstring where
  "demoPath = ''C:'' @ bslash @ ''RDO''"

definition demoLauncher :: RDOLauncher where
  "demoLauncher =
     \<lparr>installPath = demoPath, backendProcess = zeroProcess, frontendProcess = zeroProcess,
      debugMode = False\<rparr>"

definition backendInfo :: PROCESS_INFORMATION where
  "backendInfo = \<lparr>hProcess = 100, hThread = 104, dwProcessId = 4242, dwThreadId = 4243\<rparr>"

definition frontendInfo :: PROCESS_INFORMATION where
  "frontendInfo = \<lparr>hProcess = 200, hThread = 204, dwProcessId = 5252, dwThreadId = 5253\<rparr>"

text \<open>Both children are running.\<close>

definition runningLauncher :: RDOLauncher where
  "runningLauncher = demoLauncher\<lparr>backendProcess := backendInfo, frontendProcess := frontendInfo\<rparr>"

text \<open>
  A complete installation without \<open>debug.txt\<close>: both spawns succeed, the backend
  listens from the first probe on and the frontend exits.
\<close>

definition demoOS :: os where
  "demoOS =
     \<lparr>GetExecutablePath = demoPath,
      PathFileExistsW = (\<lambda>path. path \<noteq> demoPath @ bslash @ ''debug.txt''),
      CreateProcessW = (\<lambda>cmdLine dir.
         if cmdLine = backendCmdLine demoLauncher then Inr backendInfo else Inr frontendInfo),
      probes = (\<lambda>i. \<lparr>socket_ok = True, connect_ok = True, took = 1000000, overslept = 0\<rparr>),
      clock0 = 0,
      exits = (\<lambda>h. True)\<rparr>"

text \<open>The backend never listens: every \<open>connect\<close> is refused after two seconds.\<close>

definition deafOS :: os where
  "deafOS =
     demoOS\<lparr>probes :=
       (\<lambda>i. \<lparr>socket_ok = True, connect_ok = False, took = 2000000000, overslept = 0\<rparr>)\<rparr>"

text \<open>The frontend cannot be spawned (\<open>ERROR_FILE_NOT_FOUND\<close>).\<close>

definition noFrontendOS :: os where
  "noFrontendOS =
     demoOS\<lparr>CreateProcessW := (\<lambda>cmdLine dir.
       if cmdLine = backendCmdLine demoLauncher then Inr backendInfo else Inl 2)\<rparr>"

text \<open>No process can be spawned.\<close>

definition noBackendOS :: os where
  "noBackendOS = demoOS\<lparr>CreateProcessW := (\<lambda>cmdLine dir. Inl 2)\<rparr>"

text \<open>The Electron runtime and the frontend entry file are missing.\<close>

definition brokenOS :: os where
  "brokenOS =
     demoOS\<lparr>PathFileExistsW :=
       (\<lambda>path. path = pythonPath demoLauncher \<or> path = backendPath demoLauncher)\<rparr>"

section \<open>Properties\<close>

declare WaitForPort_loop.simps [simp del]

subsection \<open>The sample installations, evaluated\<close>

lemma demoOS_sel:
  "GetExecutablePath demoOS = demoPath"
  "PathFileExistsW demoOS path = (path \<noteq> demoPath @ bslash @ ''debug.txt'')"
  "CreateProcessW demoOS cmdLine dir =
     (if cmdLine = backendCmdLine demoLauncher then Inr backendInfo else Inr frontendInfo)"
  "probes demoOS i = \<lparr>socket_ok = True, connect_ok = True, took = 1000000, overslept = 0\<rparr>"
  "clock0 demoOS = 0"
  "exits demoOS h = True"
  by (simp_all add: demoOS_def)

lemma deafOS_sel:
  "GetExecutablePath deafOS = demoPath"
  "PathFileExistsW deafOS path = (path \<noteq> demoPath @ bslash @ ''debug.txt'')"
  "CreateProcessW deafOS cmdLine dir =
     (if cmdLine = backendCmdLine demoLauncher then Inr backendInfo else Inr frontendInfo)"
  "probes deafOS i = \<lparr>socket_ok = True, connect_ok = False, took = 2000000000, overslept = 0\<rparr>"
  "clock0 deafOS = 0"
  "exits deafOS h = True"
  by (simp_all add: deafOS_def demoOS_def)

lemma noFrontendOS_sel:
  "GetExecutablePath noFrontendOS = demoPath"
  "PathFileExistsW noFrontendOS path = (path \<noteq> demoPath @ bslash @ ''debug.txt'')"
  "CreateProcessW noFrontendOS cmdLine dir =
     (if cmdLine = backendCmdLine demoLauncher then Inr backendInfo else Inl 2)"
  "probes noFrontendOS i = \<lparr>socket_ok = True, connect_ok = True, took = 1000000, overslept = 0\<rparr>"
  "clock0 noFrontendOS = 0"
  by (simp_all add: noFrontendOS_def demoOS_def)

lemma noBackendOS_sel:
  "GetExecutablePath noBackendOS = demoPath"
  "PathFileExistsW noBackendOS path = (path \<noteq> demoPath @ bslash @ ''debug.txt'')"
  "CreateProcessW noBackendOS cmdLine dir = Inl 2"
  by (simp_all add: noBackendOS_def demoOS_def)

lemma demo_paths:
  "installPath demoLauncher = demoPath"
  "debugMode demoLauncher = False"
  "backendProcess demoLauncher = zeroProcess"
  "frontendProcess demoLauncher = zeroProcess"
  by (simp_all add: demoLauncher_def)

lemma WaitForPort_demoOS:
  "WaitForPort demoOS 5000 30 =
     (1000000,
      [WCout [S ''Waiting for backend on port '', I 5000, S ''...''], Connect 5000 True, readyLine])"
  by (simp add: WaitForPort_def demoOS_sel sin_port_def WaitForPort_loop.simps)

lemma WaitForPort_deafOS:
  "WaitForPort deafOS 5000 30 =
     (32000000000,
      [WCout [S ''Waiting for backend on port '', I 5000, S ''...''],
       Connect 5000 False, SleepMs 500, Connect 5000 False, SleepMs 500,
       Connect 5000 False, SleepMs 500, Connect 5000 False, SleepMs 500,
       Connect 5000 False, SleepMs 500, Connect 5000 False, SleepMs 500,
       Connect 5000 False, SleepMs 500, Connect 5000 False, SleepMs 500,
       Connect 5000 False, SleepMs 500, Connect 5000 False, SleepMs 500,
       Connect 5000 False, SleepMs 500, Connect 5000 False, SleepMs 500,
       Connect 5000 False, timeoutLine])"
  by (simp add: WaitForPort_def deafOS_sel sin_port_def WaitForPort_loop.simps)

subsection \<open>VerifyInstallation\<close>

text \<open>
  Claim C3. Whatever subset of the four dependency paths is on disk: when one is absent,
  \<open>VerifyInstallation\<close> returns false and its only error line names the first missing
  path in the order Python runtime, Electron runtime, backend entry file, frontend entry
  file; when all four are present it returns true.
\<close>

theorem VerifyInstallation_first_missing:
  "VerifyInstallation w L =
     (case first_missing w (dependencies L) of
        None \<Rightarrow> (True, [WCout [S ''Verifying installation...''],
                        WCout [S ''Installation verified successfully'']])
      | Some (path, name) \<Rightarrow>
          (False, [WCout [S ''Verifying installation...''],
                   WCerr [S ''Error: '', S name, S '' not found at: '', S path]]))
   \<and> fst (VerifyInstallation w L) = list_all (PathFileExistsW w) (map fst (dependencies L))"
  by (simp add: VerifyInstallation_def CheckDependency_def dependencies_def)

text \<open>
  With the Electron runtime and the frontend entry file both missing, the Electron
  runtime is the one named.
\<close>

lemma VerifyInstallation_brokenOS:
  "VerifyInstallation brokenOS demoLauncher =
     (False, [WCout [S ''Verifying installation...''],
              WCerr [S ''Error: '', S ''Electron runtime'', S '' not found at: '',
                     S (electronPath demoLauncher)]])"
  by (simp add: VerifyInstallation_def CheckDependency_def brokenOS_def
      pythonPath_def electronPath_def backendPath_def bslash_def)

subsection \<open>WaitForExit\<close>

text \<open>
  Claim C10. When the frontend's process handle is null, \<open>WaitForExit\<close> returns at once:
  it waits on no handle and has no effect.
\<close>

theorem WaitForExit_null_handle:
  "hProcess (frontendProcess L) = 0 \<Longrightarrow> WaitForExit w L = (True, [])"
  by (simp add: WaitForExit_def)

theorem WaitForExit_null_handle_witness:
  "hProcess (frontendProcess demoLauncher) = 0 \<and> WaitForExit deafOS demoLauncher = (True, [])"
  using WaitForExit_null_handle [of demoLauncher deafOS]
  by (simp add: demoLauncher_def zeroProcess_def)

subsection \<open>Spawning\<close>

lemma StartProcess_failed:
  "CreateProcessW w (dquote @ executable @ dquote @ '' '' @ arguments) (installPath L) = Inl err \<Longrightarrow>
   StartProcess w L executable arguments r showWindow =
     (False, r,
      [CreateProcess (dquote @ executable @ dquote @ '' '' @ arguments) CREATE_NEW_CONSOLE
         (installPath L)
         (if showWindow then \<lparr>dwFlags = 0, wShowWindow = 0\<rparr>
          else \<lparr>dwFlags = STARTF_USESHOWWINDOW, wShowWindow = SW_HIDE\<rparr>),
       WCerr [S ''Failed to start process: '', S executable, S '' (Error: '', D err, S '')'']])"
  by (simp add: StartProcess_def Let_def)

lemma StartProcess_succeeded:
  "CreateProcessW w (dquote @ executable @ dquote @ '' '' @ arguments) (installPath L) = Inr written \<Longrightarrow>
   StartProcess w L executable arguments r showWindow =
     (True, written,
      [CreateProcess (dquote @ executable @ dquote @ '' '' @ arguments) CREATE_NEW_CONSOLE
         (installPath L)
         (if showWindow then \<lparr>dwFlags = 0, wShowWindow = 0\<rparr>
          else \<lparr>dwFlags = STARTF_USESHOWWINDOW, wShowWindow = SW_HIDE\<rparr>)])"
  by (simp add: StartProcess_def Let_def)

lemma StartBackend_failed:
  assumes "CreateProcessW w (backendCmdLine L) (installPath L) = Inl err"
  shows "StartBackend w L =
     (False, L,
      [WCout [S ''Starting backend...''],
       CreateProcess (backendCmdLine L) CREATE_NEW_CONSOLE (installPath L)
         (if debugMode L then \<lparr>dwFlags = 0, wShowWindow = 0\<rparr>
          else \<lparr>dwFlags = STARTF_USESHOWWINDOW, wShowWindow = SW_HIDE\<rparr>),
       WCerr [S ''Failed to start process: '', S (pythonPath L), S '' (Error: '', D err, S '')''],
       MessageBox backendFailedMessage dialogTitle])"
  using assms
  by (simp add: StartBackend_def backendCmdLine_def backendArguments_def StartProcess_failed
      ShowErrorDialog_def)

lemma StartBackend_succeeded:
  assumes "CreateProcessW w (backendCmdLine L) (installPath L) = Inr written"
  shows "StartBackend w L =
     (True, L\<lparr>backendProcess := written\<rparr>,
      [WCout [S ''Starting backend...''],
       CreateProcess (backendCmdLine L) CREATE_NEW_CONSOLE (installPath L)
         (if debugMode L then \<lparr>dwFlags = 0, wShowWindow = 0\<rparr>
          else \<lparr>dwFlags = STARTF_USESHOWWINDOW, wShowWindow = SW_HIDE\<rparr>)]
      @ snd (WaitForPort w 5000 30))"
  using assms
  by (simp add: StartBackend_def backendCmdLine_def backendArguments_def StartProcess_succeeded)

lemma StartFrontend_failed:
  assumes "CreateProcessW w (frontendCmdLine L) (installPath L) = Inl err"
  shows "StartFrontend w L =
     (False, L,
      [WCout [S ''Starting frontend...''],
       CreateProcess (frontendCmdLine L) CREATE_NEW_CONSOLE (installPath L)
         \<lparr>dwFlags = 0, wShowWindow = 0\<rparr>,
       WCerr [S ''Failed to start process: '', S (electronPath L), S '' (Error: '', D err, S '')''],
       MessageBox frontendFailedMessage dialogTitle])"
  using assms
  by (simp add: StartFrontend_def frontendCmdLine_def frontendArguments_def StartProcess_failed
      ShowErrorDialog_def)

lemma StartFrontend_succeeded:
  assumes "CreateProcessW w (frontendCmdLine L) (installPath L) = Inr written"
  shows "StartFrontend w L =
     (True, L\<lparr>frontendProcess := written\<rparr>,
      [WCout [S ''Starting frontend...''],
       CreateProcess (frontendCmdLine L) CREATE_NEW_CONSOLE (installPath L)
         \<lparr>dwFlags = 0, wShowWindow = 0\<rparr>])"
  using assms
  by (simp add: StartFrontend_def frontendCmdLine_def frontendArguments_def StartProcess_succeeded)


lemma cmdLine_backend_written [simp]:
  "backendCmdLine (L\<lparr>backendProcess := r\<rparr>) = backendCmdLine L"
  "frontendCmdLine (L\<lparr>backendProcess := r\<rparr>) = frontendCmdLine L"
  "backendCmdLine (L\<lparr>frontendProcess := r\<rparr>) = backendCmdLine L"
  "frontendCmdLine (L\<lparr>frontendProcess := r\<rparr>) = frontendCmdLine L"
  by (simp_all add: backendCmdLine_def frontendCmdLine_def pythonPath_def backendPath_def
      electronPath_def appPath_def)

lemma Run_unverified:
  "\<not> fst (VerifyInstallation w L) \<Longrightarrow>
   Run w L = (Some 1, L, snd (VerifyInstallation w L) @ [MessageBox incompleteMessage dialogTitle])"
  by (simp add: Run_def case_prod_beta Let_def ShowErrorDialog_def)

lemma Run_no_backend:
  "fst (VerifyInstallation w L) \<Longrightarrow> \<not> fst (StartBackend w L) \<Longrightarrow>
   Run w L = (Some 2, fst (snd (StartBackend w L)),
              snd (VerifyInstallation w L) @ snd (snd (StartBackend w L)))"
  by (simp add: Run_def case_prod_beta Let_def)

lemma Run_no_frontend:
  "fst (VerifyInstallation w L) \<Longrightarrow> fst (StartBackend w L) \<Longrightarrow>
   \<not> fst (StartFrontend w (fst (snd (StartBackend w L)))) \<Longrightarrow>
   Run w L = (Some 3, fst (snd (StartFrontend w (fst (snd (StartBackend w L))))),
              snd (VerifyInstallation w L) @ snd (snd (StartBackend w L)) @ [SleepMs 1000] @
              snd (snd (StartFrontend w (fst (snd (StartBackend w L))))))"
  by (simp add: Run_def case_prod_beta Let_def)

lemma Run_started:
  "fst (VerifyInstallation w L) \<Longrightarrow> fst (StartBackend w L) \<Longrightarrow>
   fst (StartFrontend w (fst (snd (StartBackend w L)))) \<Longrightarrow>
   Run w L =
     (if fst (WaitForExit w (fst (snd (StartFrontend w (fst (snd (StartBackend w L)))))))
      then Some 0 else None,
      fst (snd (StartFrontend w (fst (snd (StartBackend w L))))),
      snd (VerifyInstallation w L) @ snd (snd (StartBackend w L)) @ [SleepMs 1000] @
      snd (snd (StartFrontend w (fst (snd (StartBackend w L))))) @
      snd (WaitForExit w (fst (snd (StartFrontend w (fst (snd (StartBackend w L))))))))"
  by (simp add: Run_def case_prod_beta Let_def)

subsection \<open>Run and its exit codes\<close>

text \<open>
  Claim C1. \<open>Run\<close> returns 1 when \<open>VerifyInstallation\<close> returns false, 2 when
  \<open>StartBackend\<close> returns false, 3 when \<open>StartFrontend\<close> returns false and 0 otherwise,
  once \<open>WaitForExit\<close> has returned; it returns no other code. When it returns 0 with a
  frontend handle, the frontend has exited and the wait on its handle was the last thing
  \<open>Run\<close> did.
\<close>

theorem Run_exit_codes:
  "fst (Run w L) =
     (if \<not> fst (VerifyInstallation w L) then Some 1
      else if \<not> fst (StartBackend w L) then Some 2
      else if \<not> fst (StartFrontend w (fst (snd (StartBackend w L)))) then Some 3
      else if fst (WaitForExit w (fst (snd (StartFrontend w (fst (snd (StartBackend w L)))))))
      then Some 0 else None)
   \<and> fst (Run w L) \<in> {None, Some 0, Some 1, Some 2, Some 3}
   \<and> (fst (Run w L) = Some 0 \<and> hProcess (frontendProcess (fst (snd (Run w L)))) \<noteq> 0 \<longrightarrow>
        exits w (hProcess (frontendProcess (fst (snd (Run w L))))) \<and>
        last (snd (snd (Run w L))) =
          WaitForSingleObject (hProcess (frontendProcess (fst (snd (Run w L))))))"
proof -
  consider (a) "\<not> fst (VerifyInstallation w L)"
    | (b) "fst (VerifyInstallation w L)" "\<not> fst (StartBackend w L)"
    | (c) "fst (VerifyInstallation w L)" "fst (StartBackend w L)"
          "\<not> fst (StartFrontend w (fst (snd (StartBackend w L))))"
    | (d) "fst (VerifyInstallation w L)" "fst (StartBackend w L)"
          "fst (StartFrontend w (fst (snd (StartBackend w L))))"
    by blast
  then show ?thesis
  proof cases
    case a
    then show ?thesis by (simp add: Run_unverified)
  next
    case b
    then show ?thesis by (simp add: Run_no_backend)
  next
    case c
    then show ?thesis by (simp add: Run_no_frontend)
  next
    case d
    then show ?thesis by (simp add: Run_started WaitForExit_def)
  qed
qed


lemma cmdLines_differ [simp]:
  "frontendCmdLine L \<noteq> backendCmdLine L"
  "backendCmdLine L \<noteq> frontendCmdLine L"
  by (simp_all add: frontendCmdLine_def backendCmdLine_def electronPath_def pythonPath_def
      dquote_def bslash_def)

lemma ctor_sample:
  "RDOLauncher_ctor demoOS = (demoLauncher, [WSAStartup])"
  "RDOLauncher_ctor deafOS = (demoLauncher, [WSAStartup])"
  "RDOLauncher_ctor noFrontendOS = (demoLauncher, [WSAStartup])"
  "RDOLauncher_ctor noBackendOS = (demoLauncher, [WSAStartup])"
  by (simp_all add: RDOLauncher_ctor_def demoOS_sel deafOS_sel noFrontendOS_sel noBackendOS_sel
      demoLauncher_def)

lemma verified_sample:
  "VerifyInstallation demoOS demoLauncher =
     (True, [WCout [S ''Verifying installation...''],
             WCout [S ''Installation verified successfully'']])"
  "VerifyInstallation deafOS demoLauncher = VerifyInstallation demoOS demoLauncher"
  "VerifyInstallation noFrontendOS demoLauncher = VerifyInstallation demoOS demoLauncher"
  "VerifyInstallation noBackendOS demoLauncher = VerifyInstallation demoOS demoLauncher"
  by (simp_all add: VerifyInstallation_def CheckDependency_def demoOS_sel deafOS_sel
      noFrontendOS_sel noBackendOS_sel demo_paths
      pythonPath_def electronPath_def backendPath_def frontendPath_def demoPath_def bslash_def)

lemma Run_demoOS:
  "Run demoOS demoLauncher =
     (Some 0, runningLauncher,
      [WCout [S ''Verifying installation...''],
       WCout [S ''Installation verified successfully''],
       WCout [S ''Starting backend...''],
       CreateProcess (backendCmdLine demoLauncher) CREATE_NEW_CONSOLE demoPath
         \<lparr>dwFlags = STARTF_USESHOWWINDOW, wShowWindow = SW_HIDE\<rparr>,
       WCout [S ''Waiting for backend on port '', I 5000, S ''...''],
       Connect 5000 True, readyLine, SleepMs 1000,
       WCout [S ''Starting frontend...''],
       CreateProcess (frontendCmdLine demoLauncher) CREATE_NEW_CONSOLE demoPath
         \<lparr>dwFlags = 0, wShowWindow = 0\<rparr>,
       WaitForSingleObject 200])"
proof -
  have b: "StartBackend demoOS demoLauncher =
     (True, demoLauncher\<lparr>backendProcess := backendInfo\<rparr>,
      [WCout [S ''Starting backend...''],
       CreateProcess (backendCmdLine demoLauncher) CREATE_NEW_CONSOLE demoPath
         \<lparr>dwFlags = STARTF_USESHOWWINDOW, wShowWindow = SW_HIDE\<rparr>,
       WCout [S ''Waiting for backend on port '', I 5000, S ''...''],
       Connect 5000 True, readyLine])"
    by (simp add: StartBackend_succeeded [of _ _ backendInfo] demoOS_sel demo_paths
        WaitForPort_demoOS)
  have f: "StartFrontend demoOS (demoLauncher\<lparr>backendProcess := backendInfo\<rparr>) =
     (True, runningLauncher,
      [WCout [S ''Starting frontend...''],
       CreateProcess (frontendCmdLine demoLauncher) CREATE_NEW_CONSOLE demoPath
         \<lparr>dwFlags = 0, wShowWindow = 0\<rparr>])"
    by (simp add: StartFrontend_succeeded [of _ _ frontendInfo] demoOS_sel demo_paths
        runningLauncher_def)
  have x: "WaitForExit demoOS runningLauncher = (True, [WaitForSingleObject 200])"
    by (simp add: WaitForExit_def runningLauncher_def frontendInfo_def demoOS_sel)
  show ?thesis
    by (simp add: Run_started verified_sample b f x)
qed

theorem Run_exit_codes_witness:
  "fst (Run demoOS demoLauncher) = Some 0
   \<and> hProcess (frontendProcess (fst (snd (Run demoOS demoLauncher)))) \<noteq> 0
   \<and> exits demoOS (hProcess (frontendProcess (fst (snd (Run demoOS demoLauncher)))))
   \<and> last (snd (snd (Run demoOS demoLauncher))) = WaitForSingleObject 200"
  using Run_exit_codes [of demoOS demoLauncher]
  by (simp add: Run_demoOS runningLauncher_def frontendInfo_def)


lemma StartBackend_noBackendOS:
  "StartBackend noBackendOS demoLauncher =
     (False, demoLauncher,
      [WCout [S ''Starting backend...''],
       CreateProcess (backendCmdLine demoLauncher) CREATE_NEW_CONSOLE demoPath
         \<lparr>dwFlags = STARTF_USESHOWWINDOW, wShowWindow = SW_HIDE\<rparr>,
       WCerr [S ''Failed to start process: '', S (pythonPath demoLauncher), S '' (Error: '',
              D 2, S '')''],
       MessageBox backendFailedMessage dialogTitle])"
  by (simp add: StartBackend_failed [of _ _ 2] noBackendOS_sel demo_paths)

lemma StartBackend_deafOS:
  "StartBackend deafOS demoLauncher =
     (True, demoLauncher\<lparr>backendProcess := backendInfo\<rparr>,
      [WCout [S ''Starting backend...''],
       CreateProcess (backendCmdLine demoLauncher) CREATE_NEW_CONSOLE demoPath
         \<lparr>dwFlags = STARTF_USESHOWWINDOW, wShowWindow = SW_HIDE\<rparr>]
      @ snd (WaitForPort deafOS 5000 30))"
  by (simp add: StartBackend_succeeded [of _ _ backendInfo] deafOS_sel demo_paths)

lemma WaitForPort_nonempty: "snd (WaitForPort w port timeoutSeconds) \<noteq> []"
  by (simp add: WaitForPort_def Let_def case_prod_beta)

lemma verdicts_differ [simp]: "readyLine \<noteq> timeoutLine" "timeoutLine \<noteq> readyLine"
  by (simp_all add: readyLine_def timeoutLine_def)

subsection \<open>StartBackend\<close>

text \<open>
  Claim C4. \<open>StartBackend\<close> returns false exactly when \<open>CreateProcessW\<close> failed for
  the backend, and then its last action is the error dialog. In every other case it
  returns true, whatever \<open>WaitForPort\<close> ended with, the timeout included.
\<close>

theorem StartBackend_false_iff_spawn_failed:
  "(\<not> fst (StartBackend w L)) = isl (CreateProcessW w (backendCmdLine L) (installPath L))
   \<and> (isl (CreateProcessW w (backendCmdLine L) (installPath L)) \<longrightarrow>
        last (snd (snd (StartBackend w L))) = MessageBox backendFailedMessage dialogTitle)
   \<and> (\<not> isl (CreateProcessW w (backendCmdLine L) (installPath L)) \<longrightarrow>
        fst (StartBackend w L) \<and>
        last (snd (snd (StartBackend w L))) = last (snd (WaitForPort w 5000 30)))
   \<and> (\<not> isl (CreateProcessW w (backendCmdLine L) (installPath L)) \<and>
        last (snd (WaitForPort w 5000 30)) = timeoutLine \<longrightarrow> fst (StartBackend w L))"
proof (cases "CreateProcessW w (backendCmdLine L) (installPath L)")
  case (Inl err)
  then show ?thesis by (simp add: StartBackend_failed)
next
  case (Inr written)
  then show ?thesis by (simp add: StartBackend_succeeded WaitForPort_nonempty)
qed

theorem StartBackend_false_iff_spawn_failed_witness:
  "\<not> isl (CreateProcessW deafOS (backendCmdLine demoLauncher) (installPath demoLauncher))
   \<and> last (snd (WaitForPort deafOS 5000 30)) = timeoutLine
   \<and> fst (StartBackend deafOS demoLauncher)
   \<and> last (snd (snd (StartBackend deafOS demoLauncher))) = timeoutLine
   \<and> isl (CreateProcessW noBackendOS (backendCmdLine demoLauncher) (installPath demoLauncher))
   \<and> \<not> fst (StartBackend noBackendOS demoLauncher)
   \<and> last (snd (snd (StartBackend noBackendOS demoLauncher))) =
        MessageBox backendFailedMessage dialogTitle"
  using StartBackend_false_iff_spawn_failed [of deafOS demoLauncher]
        StartBackend_false_iff_spawn_failed [of noBackendOS demoLauncher]
  by (simp add: deafOS_sel noBackendOS_sel WaitForPort_deafOS)

lemma VerifyInstallation_events:
  "\<exists>l. snd (VerifyInstallation w L) = [WCout [S ''Verifying installation...''], l] \<and>
       (l = WCout [S ''Installation verified successfully''] \<or>
        (\<exists>name path. l = WCerr [S ''Error: '', S name, S '' not found at: '', S path]))"
  by (simp add: VerifyInstallation_def CheckDependency_def)

lemma VerifyInstallation_passed:
  "fst (VerifyInstallation w L) \<Longrightarrow>
   snd (VerifyInstallation w L) =
     [WCout [S ''Verifying installation...''], WCout [S ''Installation verified successfully'']]"
  by (simp add: VerifyInstallation_def CheckDependency_def split: if_splits)

text \<open>
  Claim C5. When the installation is verified and the backend spawn fails, \<open>Run\<close>
  returns 2 and \<open>StartFrontend\<close> is never invoked: the only process creation of the
  execution is the backend's, and the first line of \<open>StartFrontend\<close> is never written.
  The same holds of the whole process, which exits with code 2.
\<close>

theorem backend_spawn_failure_exits_2:
  assumes "fst (VerifyInstallation w L)"
    and "isl (CreateProcessW w (backendCmdLine L) (installPath L))"
  shows "fst (Run w L) = Some 2
    \<and> map (spawn_of (backendCmdLine L)) (filter is_spawn (snd (snd (Run w L)))) = [True]
    \<and> filter (spawn_of (frontendCmdLine L)) (snd (snd (Run w L))) = []
    \<and> WCout [S ''Starting frontend...''] \<notin> set (snd (snd (Run w L)))
    \<and> (L = fst (RDOLauncher_ctor w) \<longrightarrow>
         fst (WinMain w) = Some 2 \<and>
         map (spawn_of (backendCmdLine L)) (filter is_spawn (snd (WinMain w))) = [True] \<and>
         WCout [S ''Starting frontend...''] \<notin> set (snd (WinMain w)))"
proof -
  from assms(2) obtain err where
    err: "CreateProcessW w (backendCmdLine L) (installPath L) = Inl err"
    by (cases "CreateProcessW w (backendCmdLine L) (installPath L)") auto
  have run: "Run w L =
     (Some 2, L,
      [WCout [S ''Verifying installation...''], WCout [S ''Installation verified successfully''],
       WCout [S ''Starting backend...''],
       CreateProcess (backendCmdLine L) CREATE_NEW_CONSOLE (installPath L)
         (if debugMode L then \<lparr>dwFlags = 0, wShowWindow = 0\<rparr>
          else \<lparr>dwFlags = STARTF_USESHOWWINDOW, wShowWindow = SW_HIDE\<rparr>),
       WCerr [S ''Failed to start process: '', S (pythonPath L), S '' (Error: '', D err, S '')''],
       MessageBox backendFailedMessage dialogTitle])"
    using assms(1) err
    by (simp add: Run_no_backend StartBackend_failed VerifyInstallation_passed)
  have main: "L = fst (RDOLauncher_ctor w) \<Longrightarrow>
      WinMain w = (Some 2, snd (RDOLauncher_ctor w) @ snd (snd (Run w L)) @ RDOLauncher_dtor L)"
    using run by (simp add: WinMain_def case_prod_beta)
  have c1: "filter is_spawn (snd (RDOLauncher_ctor w)) = []"
    by (simp add: RDOLauncher_ctor_def Let_def)
  have d1: "filter is_spawn (RDOLauncher_dtor L) = []"
    by (simp add: RDOLauncher_dtor_def Cleanup_def)
  have c2: "WCout [S ''Starting frontend...''] \<notin> set (snd (RDOLauncher_ctor w))"
    by (simp add: RDOLauncher_ctor_def Let_def)
  have d2: "WCout [S ''Starting frontend...''] \<notin> set (RDOLauncher_dtor L)"
    by (simp add: RDOLauncher_dtor_def Cleanup_def)
  have r0: "fst (Run w L) = Some 2"
    by (simp add: run)
  have r1: "map (spawn_of (backendCmdLine L)) (filter is_spawn (snd (snd (Run w L)))) = [True]"
    by (simp add: run)
  have r2: "filter (spawn_of (frontendCmdLine L)) (snd (snd (Run w L))) = []"
    by (simp add: run)
  have r3: "WCout [S ''Starting frontend...''] \<notin> set (snd (snd (Run w L)))"
    by (simp add: run)
  have m: "fst (WinMain w) = Some 2 \<and>
         map (spawn_of (backendCmdLine L)) (filter is_spawn (snd (WinMain w))) = [True] \<and>
         WCout [S ''Starting frontend...''] \<notin> set (snd (WinMain w))"
    if eq: "L = fst (RDOLauncher_ctor w)"
    using main [OF eq] c1 d1 c2 d2 r1 r3 by simp
  show ?thesis
    using r0 r1 r2 r3 m by blast
qed

theorem backend_spawn_failure_exits_2_witness:
  "fst (VerifyInstallation noBackendOS demoLauncher)
   \<and> isl (CreateProcessW noBackendOS (backendCmdLine demoLauncher) (installPath demoLauncher))
   \<and> demoLauncher = fst (RDOLauncher_ctor noBackendOS)
   \<and> fst (Run noBackendOS demoLauncher) = Some 2
   \<and> fst (WinMain noBackendOS) = Some 2
   \<and> filter (spawn_of (frontendCmdLine demoLauncher)) (snd (snd (Run noBackendOS demoLauncher))) = []
   \<and> WCout [S ''Starting frontend...''] \<notin> set (snd (WinMain noBackendOS))"
  using backend_spawn_failure_exits_2 [of noBackendOS demoLauncher]
  by (simp add: verified_sample noBackendOS_sel ctor_sample)

subsection \<open>WaitForPort\<close>

lemma polling_nonempty: "polling p es \<Longrightarrow> es \<noteq> []"
  by (cases es) auto

lemma polling_step:
  "es \<noteq> [] \<Longrightarrow> polling p (a # s # es) = (failed_attempt p a \<and> s = SleepMs 500 \<and> polling p es)"
  by (cases es) auto

lemma WaitForPort_loop_unfold:
  assumes "\<not> (socket_ok (probes w i) \<and> connect_ok (probes w i))"
    and "\<not> t + int (took (probes w i)) - startTime > timeout"
  shows "WaitForPort_loop w p startTime timeout i t =
     (fst (WaitForPort_loop w p startTime timeout (Suc i)
             (t + int (took (probes w i)) + 500000000 + int (overslept (probes w i)))),
      (if socket_ok (probes w i) then Connect p False else SocketFailed) # SleepMs 500 #
      snd (WaitForPort_loop w p startTime timeout (Suc i)
             (t + int (took (probes w i)) + 500000000 + int (overslept (probes w i)))))"
  using assms by (subst WaitForPort_loop.simps) (auto split: prod.split)

lemma WaitForPort_loop_ready:
  "socket_ok (probes w i) \<and> connect_ok (probes w i) \<Longrightarrow>
   WaitForPort_loop w p startTime timeout i t =
     (t + int (took (probes w i)), [Connect p True, readyLine])"
  by (subst WaitForPort_loop.simps) simp

lemma WaitForPort_loop_timeout:
  "\<not> (socket_ok (probes w i) \<and> connect_ok (probes w i)) \<Longrightarrow>
   t + int (took (probes w i)) - startTime > timeout \<Longrightarrow>
   WaitForPort_loop w p startTime timeout i t =
     (t + int (took (probes w i)),
      [if socket_ok (probes w i) then Connect p False else SocketFailed, timeoutLine])"
  by (subst WaitForPort_loop.simps) simp

lemma WaitForPort_loop_polling: "polling p (snd (WaitForPort_loop w p startTime timeout i t))"
proof (induction w p startTime timeout i t rule: WaitForPort_loop.induct)
  case (1 w p startTime timeout i t)
  show ?case
  proof (cases "socket_ok (probes w i) \<and> connect_ok (probes w i)")
    case True
    then show ?thesis by (simp add: WaitForPort_loop_ready)
  next
    case no: False
    show ?thesis
    proof (cases "t + int (took (probes w i)) - startTime > timeout")
      case True
      with no show ?thesis by (auto simp: WaitForPort_loop_timeout)
    next
      case False
      with no "1.IH" show ?thesis
        by (auto simp: WaitForPort_loop_unfold polling_step polling_nonempty)
    qed
  qed
qed

lemma WaitForPort_loop_verdict:
  "(last (snd (WaitForPort_loop w p startTime timeout i t)) = readyLine \<and>
    filter is_connected (snd (WaitForPort_loop w p startTime timeout i t)) = [Connect p True])
   \<or> (last (snd (WaitForPort_loop w p startTime timeout i t)) = timeoutLine \<and>
       filter is_connected (snd (WaitForPort_loop w p startTime timeout i t)) = [] \<and>
       fst (WaitForPort_loop w p startTime timeout i t) - startTime > timeout)"
proof (induction w p startTime timeout i t rule: WaitForPort_loop.induct)
  case (1 w p startTime timeout i t)
  show ?case
  proof (cases "socket_ok (probes w i) \<and> connect_ok (probes w i)")
    case True
    then show ?thesis by (simp add: WaitForPort_loop_ready readyLine_def)
  next
    case no: False
    show ?thesis
    proof (cases "t + int (took (probes w i)) - startTime > timeout")
      case True
      with no show ?thesis
        by (auto simp: WaitForPort_loop_timeout timeoutLine_def)
    next
      case False
      let ?t' = "t + int (took (probes w i)) + 500000000 + int (overslept (probes w i))"
      have ne: "snd (WaitForPort_loop w p startTime timeout (Suc i) ?t') \<noteq> []"
        using WaitForPort_loop_polling polling_nonempty by blast
      show ?thesis
        using "1.IH" no False ne unfolding WaitForPort_loop_unfold [OF no False] by auto
    qed
  qed
qed

lemma WaitForPort_unfold:
  "WaitForPort w port timeoutSeconds =
     (fst (WaitForPort_loop w (sin_port port) (clock0 w) (sint timeoutSeconds * 1000000000) 0
             (clock0 w)),
      WCout [S ''Waiting for backend on port '', I (sint port), S ''...''] #
      snd (WaitForPort_loop w (sin_port port) (clock0 w) (sint timeoutSeconds * 1000000000) 0
             (clock0 w)))"
  by (simp add: WaitForPort_def Let_def case_prod_beta)











subsection \<open>StartFrontend\<close>

text \<open>
  Claim C7, amended. \<open>StartFrontend\<close> makes exactly one \<open>CreateProcessW\<close> call. Its command
  line is the quoted Electron binary followed by one quoted argument, the \<open>app\<close>
  directory under the install root (not the install root itself); the working directory
  is the install root and the startup information does not ask for a hidden window.
\<close>

theorem StartFrontend_spawn:
  "filter is_spawn (snd (snd (StartFrontend w L))) =
     [CreateProcess (frontendCmdLine L) CREATE_NEW_CONSOLE (installPath L)
        \<lparr>dwFlags = 0, wShowWindow = 0\<rparr>]
   \<and> frontendCmdLine L =
       dquote @ electronPath L @ dquote @ '' '' @ dquote @ installPath L @ bslash @ ''app'' @ dquote
   \<and> \<not> hidden \<lparr>dwFlags = 0, wShowWindow = 0\<rparr>"
proof (cases "CreateProcessW w (frontendCmdLine L) (installPath L)")
  case (Inl err)
  then show ?thesis
    by (simp add: StartFrontend_failed hidden_def) (simp add: frontendCmdLine_def appPath_def)
next
  case (Inr written)
  then show ?thesis
    by (simp add: StartFrontend_succeeded hidden_def) (simp add: frontendCmdLine_def appPath_def)
qed

lemma StartFrontend_demoOS:
  "StartFrontend demoOS demoLauncher =
     (True, demoLauncher\<lparr>frontendProcess := frontendInfo\<rparr>,
      [WCout [S ''Starting frontend...''],
       CreateProcess (frontendCmdLine demoLauncher) CREATE_NEW_CONSOLE demoPath
         \<lparr>dwFlags = 0, wShowWindow = 0\<rparr>])"
  by (simp add: StartFrontend_succeeded [of _ _ frontendInfo] demoOS_sel demo_paths)

text \<open>
  Claim C7 as the specification words it fails: for the installation in \<open>C:/RDO\<close> the
  command line is not the one with the install root as argument, it is the one with
  \<open>C:/RDO/app\<close>.
\<close>

theorem StartFrontend_argument_counterexample:
  "map (spawn_of (specFrontendCmdLine demoLauncher))
       (filter is_spawn (snd (snd (StartFrontend demoOS demoLauncher)))) = [False]
   \<and> map (spawn_of (dquote @ electronPath demoLauncher @ dquote @ '' '' @
                      dquote @ demoPath @ bslash @ ''app'' @ dquote))
       (filter is_spawn (snd (snd (StartFrontend demoOS demoLauncher)))) = [True]"
  by (simp add: StartFrontend_demoOS specFrontendCmdLine_def frontendCmdLine_def appPath_def
      demo_paths bslash_def dquote_def)

subsection \<open>Cleanup\<close>

text \<open>
  Claim C6 as the specification words it fails: with both children running, the second of
  two \<open>Cleanup\<close> calls terminates the backend again and closes again the four handles the
  first call has closed.
\<close>

theorem Cleanup_twice_counterexample:
  "snd (Cleanup runningLauncher) =
     [TerminateProcess 100 0, CloseHandle 100, CloseHandle 104, CloseHandle 200, CloseHandle 204]
   \<and> snd (Cleanup (fst (Cleanup runningLauncher))) =
     [TerminateProcess 100 0, CloseHandle 100, CloseHandle 104, CloseHandle 200, CloseHandle 204]"
  by (simp add: Cleanup_def runningLauncher_def demoLauncher_def backendInfo_def frontendInfo_def)

subsection \<open>What the parts of a run can emit\<close>

lemma quiet_released: "\<not> process_event e \<Longrightarrow> released e = []"
  by (cases e) auto

lemma quiet_kinds:
  "\<not> process_event e \<Longrightarrow>
   \<not> is_spawn e \<and> \<not> spawn_of c e \<and> \<not> is_terminate e \<and> \<not> is_wait e"
  by (cases e) auto

lemma polling_quiet: "polling p es \<Longrightarrow> e \<in> set es \<Longrightarrow> \<not> process_event e"
proof (induction p es rule: polling.induct)
  case (1 p a v)
  then show ?case by (cases a) (auto simp: readyLine_def timeoutLine_def)
next
  case (2 p a s v va)
  then show ?case by (cases a) auto
qed auto

lemma WaitForPort_quiet:
  "e \<in> set (snd (WaitForPort w port timeoutSeconds)) \<Longrightarrow> \<not> process_event e"
  using polling_quiet [OF WaitForPort_loop_polling]
  by (auto simp: WaitForPort_unfold)

lemma WaitForPort_has_verdict:
  "\<exists>e\<in>set (snd (WaitForPort w port timeoutSeconds)). port_verdict e"
proof -
  have "last (snd (WaitForPort w port timeoutSeconds)) \<in> set (snd (WaitForPort w port timeoutSeconds))"
    by (rule last_in_set) (rule WaitForPort_nonempty)
  moreover have "port_verdict (last (snd (WaitForPort w port timeoutSeconds)))"
    using WaitForPort_loop_verdict
      [of w "sin_port port" "clock0 w" "sint timeoutSeconds * 1000000000" 0 "clock0 w"]
      polling_nonempty [OF WaitForPort_loop_polling
        [of "sin_port port" w "clock0 w" "sint timeoutSeconds * 1000000000" 0 "clock0 w"]]
    by (auto simp: WaitForPort_unfold port_verdict_def)
  ultimately show ?thesis by blast
qed

text \<open>The four ways \<open>Run\<close> can go, with the state it leaves and all its events.\<close>

lemma Run_shape:
  obtains
    (unverified) "\<not> fst (VerifyInstallation w L)"
      "Run w L = (Some 1, L, snd (VerifyInstallation w L) @ [MessageBox incompleteMessage dialogTitle])"
  | (no_backend) err where
      "CreateProcessW w (backendCmdLine L) (installPath L) = Inl err"
      "Run w L =
         (Some 2, L,
          snd (VerifyInstallation w L) @
          [WCout [S ''Starting backend...''], backendSpawn L,
           WCerr [S ''Failed to start process: '', S (pythonPath L), S '' (Error: '', D err, S '')''],
           MessageBox backendFailedMessage dialogTitle])"
  | (no_frontend) rb err where
      "CreateProcessW w (backendCmdLine L) (installPath L) = Inr rb"
      "CreateProcessW w (frontendCmdLine L) (installPath L) = Inl err"
      "Run w L =
         (Some 3, L\<lparr>backendProcess := rb\<rparr>,
          snd (VerifyInstallation w L) @
          [WCout [S ''Starting backend...''], backendSpawn L] @ snd (WaitForPort w 5000 30) @
          [SleepMs 1000, WCout [S ''Starting frontend...''], frontendSpawn L,
           WCerr [S ''Failed to start process: '', S (electronPath L), S '' (Error: '', D err, S '')''],
           MessageBox frontendFailedMessage dialogTitle])"
  | (started) rb rf where
      "CreateProcessW w (backendCmdLine L) (installPath L) = Inr rb"
      "CreateProcessW w (frontendCmdLine L) (installPath L) = Inr rf"
      "Run w L =
         (if hProcess rf = 0 \<or> exits w (hProcess rf) then Some 0 else None,
          L\<lparr>backendProcess := rb, frontendProcess := rf\<rparr>,
          snd (VerifyInstallation w L) @
          [WCout [S ''Starting backend...''], backendSpawn L] @ snd (WaitForPort w 5000 30) @
          [SleepMs 1000, WCout [S ''Starting frontend...''], frontendSpawn L] @
          (if hProcess rf = 0 then [] else [WaitForSingleObject (hProcess rf)]))"
proof (cases "fst (VerifyInstallation w L)")
  case False
  then show ?thesis using unverified by (simp add: Run_unverified)
next
  case v: True
  show ?thesis
  proof (cases "CreateProcessW w (backendCmdLine L) (installPath L)")
    case (Inl err)
    then show ?thesis
      using v no_backend [of err]
      by (simp add: Run_no_backend StartBackend_failed backendSpawn_def)
  next
    case b: (Inr rb)
    have sb: "StartBackend w L =
        (True, L\<lparr>backendProcess := rb\<rparr>,
         [WCout [S ''Starting backend...''], backendSpawn L] @ snd (WaitForPort w 5000 30))"
      using b by (simp add: StartBackend_succeeded backendSpawn_def)
    show ?thesis
    proof (cases "CreateProcessW w (frontendCmdLine L) (installPath L)")
      case (Inl err)
      then have sf: "StartFrontend w (L\<lparr>backendProcess := rb\<rparr>) =
          (False, L\<lparr>backendProcess := rb\<rparr>,
           [WCout [S ''Starting frontend...''], frontendSpawn L,
            WCerr [S ''Failed to start process: '', S (electronPath L), S '' (Error: '', D err, S '')''],
            MessageBox frontendFailedMessage dialogTitle])"
        by (simp add: StartFrontend_failed [of _ _ err] frontendSpawn_def electronPath_def)
      show ?thesis
        using v b Inl no_frontend [of rb err]
        by (simp add: Run_no_frontend sb sf)
    next
      case (Inr rf)
      then have sf: "StartFrontend w (L\<lparr>backendProcess := rb\<rparr>) =
          (True, L\<lparr>backendProcess := rb, frontendProcess := rf\<rparr>,
           [WCout [S ''Starting frontend...''], frontendSpawn L])"
        by (simp add: StartFrontend_succeeded [of _ _ rf] frontendSpawn_def)
      show ?thesis
        using v b Inr started [of rb rf]
        by (simp add: Run_started sb sf WaitForExit_def)
    qed
  qed
qed

lemma spawn_kinds [simp]:
  "is_spawn (backendSpawn L)" "is_spawn (frontendSpawn L)"
  "spawn_of c (backendSpawn L) = (backendCmdLine L = c)"
  "spawn_of c (frontendSpawn L) = (frontendCmdLine L = c)"
  "\<not> is_terminate (backendSpawn L)" "\<not> is_terminate (frontendSpawn L)"
  "released (backendSpawn L) = []" "released (frontendSpawn L) = []"
  "\<not> is_wait (backendSpawn L)" "\<not> is_wait (frontendSpawn L)"
  "\<not> port_verdict (backendSpawn L)" "\<not> port_verdict (frontendSpawn L)"
  "\<not> frontend_over h (backendSpawn L)" "\<not> frontend_over h (frontendSpawn L)"
  by (simp_all add: backendSpawn_def frontendSpawn_def port_verdict_def readyLine_def
      timeoutLine_def)

lemma messages_differ [simp]:
  "incompleteMessage \<noteq> frontendFailedMessage"
  "backendFailedMessage \<noteq> frontendFailedMessage"
  by (simp_all add: incompleteMessage_def backendFailedMessage_def frontendFailedMessage_def)

lemma VerifyInstallation_quiet:
  "e \<in> set (snd (VerifyInstallation w L)) \<Longrightarrow>
   \<not> process_event e \<and> \<not> port_verdict e \<and> \<not> frontend_over h e"
  using VerifyInstallation_events [of w L]
  by (auto simp: port_verdict_def readyLine_def timeoutLine_def)

lemma quiet_not_gone: "polling p es \<Longrightarrow> e \<in> set es \<Longrightarrow> \<not> frontend_over h e"
proof (induction p es rule: polling.induct)
  case (1 p a v)
  then show ?case by (cases a) (auto simp: readyLine_def timeoutLine_def)
next
  case (2 p a s v va)
  then show ?case by (cases a) auto
qed auto

lemma WaitForPort_not_gone:
  "e \<in> set (snd (WaitForPort w port timeoutSeconds)) \<Longrightarrow> \<not> frontend_over h e"
  using quiet_not_gone [OF WaitForPort_loop_polling]
  by (auto simp: WaitForPort_unfold)

lemma Run_releases_nothing:
  "e \<in> set (snd (snd (Run w L))) \<Longrightarrow> released e = [] \<and> \<not> is_terminate e"
proof (cases rule: Run_shape [of w L])
  case unverified
  assume "e \<in> set (snd (snd (Run w L)))"
  with unverified show ?thesis
    using VerifyInstallation_quiet [of e w L] quiet_released [of e] quiet_kinds [of e]
    by auto
next
  case (no_backend err)
  assume "e \<in> set (snd (snd (Run w L)))"
  with no_backend show ?thesis
    using VerifyInstallation_quiet [of e w L] quiet_released [of e] quiet_kinds [of e]
    by auto
next
  case (no_frontend rb err)
  assume "e \<in> set (snd (snd (Run w L)))"
  with no_frontend show ?thesis
    using VerifyInstallation_quiet [of e w L] WaitForPort_quiet [of e w 5000 30]
      quiet_released [of e] quiet_kinds [of e]
    by auto
next
  case (started rb rf)
  assume "e \<in> set (snd (snd (Run w L)))"
  with started show ?thesis
    using VerifyInstallation_quiet [of e w L] WaitForPort_quiet [of e w 5000 30]
      quiet_released [of e] quiet_kinds [of e]
    by (auto split: if_splits)
qed

lemma Run_no_terminate: "filter is_terminate (snd (snd (Run w L))) = []"
  using Run_releases_nothing [of _ w L] by (auto simp: filter_empty_conv)

lemma ctor_events:
  "e \<in> set (snd (RDOLauncher_ctor w)) \<Longrightarrow> e = WSAStartup \<or> e = AllocConsole"
  by (auto simp: RDOLauncher_ctor_def Let_def split: if_splits)

lemma ctor_state:
  "installPath (fst (RDOLauncher_ctor w)) = GetExecutablePath w"
  "backendProcess (fst (RDOLauncher_ctor w)) = zeroProcess"
  "frontendProcess (fst (RDOLauncher_ctor w)) = zeroProcess"
  by (simp_all add: RDOLauncher_ctor_def Let_def)

lemma dtor_terminates:
  "filter is_terminate (RDOLauncher_dtor L) =
     (if hProcess (backendProcess L) \<noteq> 0 then [TerminateProcess (hProcess (backendProcess L)) 0]
      else [])"
  by (simp add: RDOLauncher_dtor_def Cleanup_def)

lemma dtor_no_spawn: "e \<in> set (RDOLauncher_dtor L) \<Longrightarrow> \<not> is_spawn e \<and> \<not> spawn_of c e"
  by (auto simp: RDOLauncher_dtor_def Cleanup_def split: if_splits)

lemma WinMain_unfold:
  "WinMain w =
     (fst (Run w (fst (RDOLauncher_ctor w))),
      snd (RDOLauncher_ctor w) @ snd (snd (Run w (fst (RDOLauncher_ctor w)))) @
      (if fst (Run w (fst (RDOLauncher_ctor w))) = None then []
       else RDOLauncher_dtor (fst (snd (Run w (fst (RDOLauncher_ctor w)))))))"
  by (simp add: WinMain_def case_prod_beta split: option.split)

text \<open>
  Claim C6, amended. \<open>Cleanup\<close> is safe with unset handles: when both process handles are
  null it has no effect, however often it is called. It never changes the launcher's
  state (a handle it has closed is not set to null), and an execution invokes it once
  only, in the destructor, after \<open>Run\<close> has returned: \<open>Run\<close> releases nothing, the whole
  execution terminates a process at most once, and what it releases is what that one
  \<open>Cleanup\<close> releases.
\<close>

theorem Cleanup_safe_when_unset:
  "fst (Cleanup L) = L
   \<and> (hProcess (backendProcess L) = 0 \<and> hProcess (frontendProcess L) = 0 \<longrightarrow>
        snd (Cleanup L) = [] \<and> snd (Cleanup (fst (Cleanup L))) = [])
   \<and> concat (map released (snd (snd (Run w L)))) = []
   \<and> length (filter is_terminate (snd (WinMain w))) \<le> 1
   \<and> concat (map released (snd (WinMain w))) =
        (if fst (WinMain w) = None then []
         else concat (map released
                (snd (Cleanup (fst (snd (Run w (fst (RDOLauncher_ctor w)))))))))"
proof -
  have a: "fst (Cleanup L) = L" by (simp add: Cleanup_def)
  have c: "hProcess (backendProcess L) = 0 \<and> hProcess (frontendProcess L) = 0 \<longrightarrow>
        snd (Cleanup L) = [] \<and> snd (Cleanup (fst (Cleanup L))) = []"
    by (simp add: Cleanup_def)
  have d: "concat (map released (snd (snd (Run w L')))) = []" for L'
    using Run_releases_nothing [of _ w L'] by simp
  have "filter is_terminate (snd (RDOLauncher_ctor w)) = []"
    by (simp add: RDOLauncher_ctor_def Let_def)
  then have e: "length (filter is_terminate (snd (WinMain w))) \<le> 1"
    by (simp add: WinMain_unfold Run_no_terminate dtor_terminates)
  have "concat (map released (snd (RDOLauncher_ctor w))) = []"
    by (simp add: RDOLauncher_ctor_def Let_def)
  then have f: "concat (map released (snd (WinMain w))) =
        (if fst (WinMain w) = None then []
         else concat (map released
                (snd (Cleanup (fst (snd (Run w (fst (RDOLauncher_ctor w)))))))))"
    by (simp add: WinMain_unfold d RDOLauncher_dtor_def)
  show ?thesis using a c d e f by simp
qed

theorem Cleanup_safe_when_unset_witness:
  "hProcess (backendProcess demoLauncher) = 0 \<and> hProcess (frontendProcess demoLauncher) = 0
   \<and> snd (Cleanup demoLauncher) = []
   \<and> snd (Cleanup (fst (Cleanup demoLauncher))) = []"
  using Cleanup_safe_when_unset [of demoLauncher demoOS]
  by (simp add: demo_paths zeroProcess_def)

lemma precedes_append_if:
  "\<forall>e\<in>set xs. \<not> Q e \<Longrightarrow>
   precedes P Q (xs @ ys) = (if \<forall>e\<in>set xs. \<not> P e then precedes P Q ys else True)"
  by (induction xs) auto

lemma ctor_quiet [simp]:
  "\<forall>e\<in>set (snd (RDOLauncher_ctor w)). \<not> spawn_of c e"
  "\<forall>e\<in>set (snd (RDOLauncher_ctor w)). \<not> is_terminate e"
  "\<forall>e\<in>set (snd (RDOLauncher_ctor w)). \<not> port_verdict e"
  "\<forall>e\<in>set (snd (RDOLauncher_ctor w)). \<not> frontend_over h e"
  "\<forall>e\<in>set (snd (RDOLauncher_ctor w)). \<not> is_spawn e"
  by (auto dest: ctor_events simp: port_verdict_def readyLine_def timeoutLine_def)

lemma verify_quiet [simp]:
  "\<forall>e\<in>set (snd (VerifyInstallation w L)). \<not> spawn_of c e"
  "\<forall>e\<in>set (snd (VerifyInstallation w L)). \<not> is_terminate e"
  "\<forall>e\<in>set (snd (VerifyInstallation w L)). \<not> port_verdict e"
  "\<forall>e\<in>set (snd (VerifyInstallation w L)). \<not> frontend_over h e"
  "\<forall>e\<in>set (snd (VerifyInstallation w L)). \<not> is_spawn e"
  using VerifyInstallation_quiet [of _ w L] quiet_kinds by blast+

lemma wait_quiet [simp]:
  "\<forall>e\<in>set (snd (WaitForPort w port timeoutSeconds)). \<not> spawn_of c e"
  "\<forall>e\<in>set (snd (WaitForPort w port timeoutSeconds)). \<not> is_terminate e"
  "\<forall>e\<in>set (snd (WaitForPort w port timeoutSeconds)). \<not> frontend_over h e"
  "(\<forall>e\<in>set (snd (WaitForPort w port timeoutSeconds)). \<not> port_verdict e) = False"
  using WaitForPort_quiet [of _ w port timeoutSeconds] quiet_kinds
    WaitForPort_not_gone [of _ w port timeoutSeconds]
    WaitForPort_has_verdict [of w port timeoutSeconds]
  by blast+

lemma dtor_quiet [simp]:
  "\<forall>e\<in>set (RDOLauncher_dtor L). \<not> spawn_of c e"
  using dtor_no_spawn by blast

lemma log_kinds [simp]:
  "\<not> port_verdict (WCout [S ''Starting backend...''])"
  "\<not> port_verdict (WCout [S ''Starting frontend...''])"
  "\<not> port_verdict (SleepMs n)"
  "\<not> port_verdict (MessageBox m t)"
  by (simp_all add: port_verdict_def readyLine_def timeoutLine_def)

subsection \<open>The order of a launch\<close>

lemma WaitForPort_verdict:
  "(last (snd (WaitForPort w port timeoutSeconds)) = readyLine \<and>
    filter is_connected (snd (WaitForPort w port timeoutSeconds)) = [Connect (sin_port port) True])
   \<or> (last (snd (WaitForPort w port timeoutSeconds)) = timeoutLine \<and>
       filter is_connected (snd (WaitForPort w port timeoutSeconds)) = [] \<and>
       fst (WaitForPort w port timeoutSeconds) - clock0 w > sint timeoutSeconds * 1000000000)"
proof -
  let ?T = "sint timeoutSeconds * 1000000000"
  have "snd (WaitForPort_loop w (sin_port port) (clock0 w) ?T 0 (clock0 w)) \<noteq> []"
    using WaitForPort_loop_polling polling_nonempty by blast
  then show ?thesis
    using WaitForPort_loop_verdict [of w "sin_port port" "clock0 w" ?T 0 "clock0 w"]
    by (simp add: WaitForPort_unfold)
qed

text \<open>
  Claim C2, amended. In every execution the frontend is spawned only after the backend
  has been spawned, successfully, and right after the whole of \<open>WaitForPort(5000)\<close> with
  its timeout of 30 s and a sleep of one second; \<open>WaitForPort\<close> ends either with
  127.0.0.1:5000 having accepted a connection or, no connection having succeeded, with
  more than 30 s gone. \<open>Run\<close> terminates no process: the backend is terminated only by the
  destructor, only in executions that exit with code 0 or 3, only after the frontend
  spawn was attempted and, unless \<open>CreateProcessW\<close> reports the frontend spawned with a
  null process handle, only after the wait on the frontend's process handle has returned
  or the dialog has told that the frontend could not be started.
\<close>

theorem launch_order:
  assumes L0: "L0 = fst (RDOLauncher_ctor w)"
  shows "precedes (spawn_of (backendCmdLine L0)) (spawn_of (frontendCmdLine L0)) (snd (WinMain w))
    \<and> precedes port_verdict (spawn_of (frontendCmdLine L0)) (snd (WinMain w))
    \<and> (filter (spawn_of (frontendCmdLine L0)) (snd (WinMain w)) \<noteq> [] \<longrightarrow>
         \<not> isl (CreateProcessW w (backendCmdLine L0) (installPath L0)) \<and>
         (\<exists>pre post.
            snd (WinMain w) =
              pre @ backendSpawn L0 # snd (WaitForPort w 5000 30) @
              [SleepMs 1000, WCout [S ''Starting frontend...''], frontendSpawn L0] @ post \<and>
            filter is_spawn pre = []))
    \<and> ((last (snd (WaitForPort w 5000 30)) = readyLine \<and>
         filter is_connected (snd (WaitForPort w 5000 30)) = [Connect 5000 True])
        \<or> (last (snd (WaitForPort w 5000 30)) = timeoutLine \<and>
            filter is_connected (snd (WaitForPort w 5000 30)) = [] \<and>
            fst (WaitForPort w 5000 30) - clock0 w > 30000000000))
    \<and> filter is_terminate (snd (snd (Run w L))) = []
    \<and> (filter is_terminate (snd (WinMain w)) \<noteq> [] \<longrightarrow>
         fst (WinMain w) = Some 0 \<or> fst (WinMain w) = Some 3)
    \<and> precedes (spawn_of (frontendCmdLine L0)) is_terminate (snd (WinMain w))
    \<and> (\<not> null_frontend w L0 \<longrightarrow>
         precedes (frontend_over (frontend_handle w L0)) is_terminate (snd (WinMain w)))"
proof -
  have zero: "hProcess (backendProcess L0) = 0" "hProcess (frontendProcess L0) = 0"
    by (simp_all add: L0 ctor_state zeroProcess_def)
  have main: "WinMain w =
     (fst (Run w L0),
      snd (RDOLauncher_ctor w) @ snd (snd (Run w L0)) @
      (if fst (Run w L0) = None then [] else RDOLauncher_dtor (fst (snd (Run w L0)))))"
    unfolding L0 by (rule WinMain_unfold)
  have d: "filter is_terminate (snd (snd (Run w L))) = []"
    by (rule Run_no_terminate)
  have v: "(last (snd (WaitForPort w 5000 30)) = readyLine \<and>
         filter is_connected (snd (WaitForPort w 5000 30)) = [Connect 5000 True])
        \<or> (last (snd (WaitForPort w 5000 30)) = timeoutLine \<and>
            filter is_connected (snd (WaitForPort w 5000 30)) = [] \<and>
            fst (WaitForPort w 5000 30) - clock0 w > 30000000000)"
    using WaitForPort_verdict [of w 5000 30] by (simp add: sin_port_def)
  have rest: "precedes (spawn_of (backendCmdLine L0)) (spawn_of (frontendCmdLine L0)) (snd (WinMain w))
    \<and> precedes port_verdict (spawn_of (frontendCmdLine L0)) (snd (WinMain w))
    \<and> (filter (spawn_of (frontendCmdLine L0)) (snd (WinMain w)) \<noteq> [] \<longrightarrow>
         \<not> isl (CreateProcessW w (backendCmdLine L0) (installPath L0)))
    \<and> (filter is_terminate (snd (WinMain w)) \<noteq> [] \<longrightarrow>
         fst (WinMain w) = Some 0 \<or> fst (WinMain w) = Some 3)
    \<and> precedes (spawn_of (frontendCmdLine L0)) is_terminate (snd (WinMain w))
    \<and> (\<not> null_frontend w L0 \<longrightarrow>
         precedes (frontend_over (frontend_handle w L0)) is_terminate (snd (WinMain w)))"
  proof (cases rule: Run_shape [of w L0])
    case unverified
    then show ?thesis
      unfolding main
      by (simp add: precedes_append_if filter_empty_conv zero RDOLauncher_dtor_def Cleanup_def)
  next
    case (no_backend err)
    then show ?thesis
      unfolding main
      by (simp add: precedes_append_if filter_empty_conv zero RDOLauncher_dtor_def Cleanup_def)
  next
    case (no_frontend rb err)
    then show ?thesis
      unfolding main
      by (simp add: precedes_append_if filter_empty_conv)
  next
    case (started rb rf)
    then show ?thesis
      unfolding main
      by (simp add: precedes_append_if filter_empty_conv RDOLauncher_dtor_def Cleanup_def
          null_frontend_def frontend_handle_def)
  qed
  have shape: "\<exists>pre post.
            snd (WinMain w) =
              pre @ backendSpawn L0 # snd (WaitForPort w 5000 30) @
              [SleepMs 1000, WCout [S ''Starting frontend...''], frontendSpawn L0] @ post \<and>
            filter is_spawn pre = []"
    if f: "filter (spawn_of (frontendCmdLine L0)) (snd (WinMain w)) \<noteq> []"
  proof (cases rule: Run_shape [of w L0])
    case unverified
    with f show ?thesis
      unfolding main
      by (simp add: filter_empty_conv zero RDOLauncher_dtor_def Cleanup_def)
  next
    case (no_backend err)
    with f show ?thesis
      unfolding main
      by (simp add: filter_empty_conv zero RDOLauncher_dtor_def Cleanup_def)
  next
    case (no_frontend rb err)
    let ?pre = "snd (RDOLauncher_ctor w) @ snd (VerifyInstallation w L0) @
                [WCout [S ''Starting backend...'']]"
    let ?post = "[WCerr [S ''Failed to start process: '', S (electronPath L0), S '' (Error: '',
                         D err, S '')''],
                  MessageBox frontendFailedMessage dialogTitle] @
                 RDOLauncher_dtor (L0\<lparr>backendProcess := rb\<rparr>)"
    have "snd (WinMain w) =
              ?pre @ backendSpawn L0 # snd (WaitForPort w 5000 30) @
              [SleepMs 1000, WCout [S ''Starting frontend...''], frontendSpawn L0] @ ?post"
      unfolding main using no_frontend by simp
    moreover have "filter is_spawn ?pre = []"
      by (simp add: filter_empty_conv)
    ultimately show ?thesis by blast
  next
    case (started rb rf)
    let ?pre = "snd (RDOLauncher_ctor w) @ snd (VerifyInstallation w L0) @
                [WCout [S ''Starting backend...'']]"
    let ?tail = "(if hProcess rf = 0 then [] else [WaitForSingleObject (hProcess rf)]) @
                 (if fst (Run w L0) = None then [] else RDOLauncher_dtor (fst (snd (Run w L0))))"
    have "snd (WinMain w) =
              ?pre @ backendSpawn L0 # snd (WaitForPort w 5000 30) @
              [SleepMs 1000, WCout [S ''Starting frontend...''], frontendSpawn L0] @ ?tail"
      unfolding main by (subst (1) started(3)) simp
    moreover have "filter is_spawn ?pre = []"
      by (simp add: filter_empty_conv)
    ultimately show ?thesis by blast
  qed
  show ?thesis using d v rest shape by simp
qed

lemma Run_deafOS:
  "Run deafOS demoLauncher =
     (Some 0, runningLauncher,
      [WCout [S ''Verifying installation...''],
       WCout [S ''Installation verified successfully''],
       WCout [S ''Starting backend...''], backendSpawn demoLauncher] @
      snd (WaitForPort deafOS 5000 30) @
      [SleepMs 1000, WCout [S ''Starting frontend...''], frontendSpawn demoLauncher,
       WaitForSingleObject 200])"
proof -
  have f: "StartFrontend deafOS (demoLauncher\<lparr>backendProcess := backendInfo\<rparr>) =
     (True, runningLauncher,
      [WCout [S ''Starting frontend...''], frontendSpawn demoLauncher])"
    by (simp add: StartFrontend_succeeded [of _ _ frontendInfo] deafOS_sel demo_paths
        runningLauncher_def frontendSpawn_def)
  have x: "WaitForExit deafOS runningLauncher = (True, [WaitForSingleObject 200])"
    by (simp add: WaitForExit_def runningLauncher_def frontendInfo_def deafOS_sel)
  show ?thesis
    by (simp add: Run_started verified_sample StartBackend_deafOS f x backendSpawn_def demo_paths)
qed

lemma Run_noFrontendOS:
  "Run noFrontendOS demoLauncher =
     (Some 3, demoLauncher\<lparr>backendProcess := backendInfo\<rparr>,
      [WCout [S ''Verifying installation...''],
       WCout [S ''Installation verified successfully''],
       WCout [S ''Starting backend...''], backendSpawn demoLauncher] @
      snd (WaitForPort noFrontendOS 5000 30) @
      [SleepMs 1000, WCout [S ''Starting frontend...''], frontendSpawn demoLauncher,
       WCerr [S ''Failed to start process: '', S (electronPath demoLauncher), S '' (Error: '',
              D 2, S '')''],
       MessageBox frontendFailedMessage dialogTitle])"
proof -
  have b: "StartBackend noFrontendOS demoLauncher =
     (True, demoLauncher\<lparr>backendProcess := backendInfo\<rparr>,
      [WCout [S ''Starting backend...''], backendSpawn demoLauncher] @
      snd (WaitForPort noFrontendOS 5000 30))"
    by (simp add: StartBackend_succeeded [of _ _ backendInfo] noFrontendOS_sel demo_paths
        backendSpawn_def)
  have f: "StartFrontend noFrontendOS (demoLauncher\<lparr>backendProcess := backendInfo\<rparr>) =
     (False, demoLauncher\<lparr>backendProcess := backendInfo\<rparr>,
      [WCout [S ''Starting frontend...''], frontendSpawn demoLauncher,
       WCerr [S ''Failed to start process: '', S (electronPath demoLauncher), S '' (Error: '',
              D 2, S '')''],
       MessageBox frontendFailedMessage dialogTitle])"
    by (simp add: StartFrontend_failed [of _ _ 2] noFrontendOS_sel demo_paths
        frontendSpawn_def electronPath_def)
  show ?thesis
    by (simp add: Run_no_frontend verified_sample b f)
qed

text \<open>
  Claim C2 as the specification words it fails twice. On a backend that never listens
  the frontend is spawned and its handle stored although no \<open>connect\<close> ever succeeded.
  When the frontend cannot be spawned the backend is terminated although no frontend has
  exited or was ever waited for.
\<close>

theorem not_ready_not_exited_counterexample:
  "fst (WinMain deafOS) = Some 0
   \<and> filter is_spawn (snd (WinMain deafOS)) = [backendSpawn demoLauncher, frontendSpawn demoLauncher]
   \<and> hProcess (frontendProcess (fst (snd (Run deafOS (fst (RDOLauncher_ctor deafOS)))))) = 200
   \<and> filter is_connected (snd (WinMain deafOS)) = []
   \<and> fst (WinMain noFrontendOS) = Some 3
   \<and> filter is_terminate (snd (WinMain noFrontendOS)) = [TerminateProcess 100 0]
   \<and> filter is_wait (snd (WinMain noFrontendOS)) = []"
proof -
  have q: "filter is_spawn (snd (WaitForPort noFrontendOS 5000 30)) = []"
       "filter is_wait (snd (WaitForPort noFrontendOS 5000 30)) = []"
       "filter is_terminate (snd (WaitForPort noFrontendOS 5000 30)) = []"
    using WaitForPort_quiet [of _ noFrontendOS 5000 30] quiet_kinds
    by (auto simp: filter_empty_conv)
  have a: "fst (WinMain deafOS) = Some 0
   \<and> filter is_spawn (snd (WinMain deafOS)) = [backendSpawn demoLauncher, frontendSpawn demoLauncher]
   \<and> hProcess (frontendProcess (fst (snd (Run deafOS (fst (RDOLauncher_ctor deafOS)))))) = 200
   \<and> filter is_connected (snd (WinMain deafOS)) = []"
    by (simp add: WinMain_unfold ctor_sample Run_deafOS WaitForPort_deafOS RDOLauncher_dtor_def
        Cleanup_def runningLauncher_def backendInfo_def frontendInfo_def timeoutLine_def
        backendSpawn_def frontendSpawn_def)
  have b: "fst (WinMain noFrontendOS) = Some 3
   \<and> filter is_terminate (snd (WinMain noFrontendOS)) = [TerminateProcess 100 0]
   \<and> filter is_wait (snd (WinMain noFrontendOS)) = []"
    by (simp add: WinMain_unfold ctor_sample Run_noFrontendOS q RDOLauncher_dtor_def
        Cleanup_def backendInfo_def demo_paths zeroProcess_def)
  show ?thesis using a b by simp
qed

lemma WinMain_demoOS:
  "WinMain demoOS =
     (Some 0,
      [WSAStartup,
       WCout [S ''Verifying installation...''],
       WCout [S ''Installation verified successfully''],
       WCout [S ''Starting backend...''],
       CreateProcess (backendCmdLine demoLauncher) CREATE_NEW_CONSOLE demoPath
         \<lparr>dwFlags = STARTF_USESHOWWINDOW, wShowWindow = SW_HIDE\<rparr>,
       WCout [S ''Waiting for backend on port '', I 5000, S ''...''],
       Connect 5000 True, readyLine, SleepMs 1000,
       WCout [S ''Starting frontend...''],
       CreateProcess (frontendCmdLine demoLauncher) CREATE_NEW_CONSOLE demoPath
         \<lparr>dwFlags = 0, wShowWindow = 0\<rparr>,
       WaitForSingleObject 200,
       TerminateProcess 100 0, CloseHandle 100, CloseHandle 104,
       CloseHandle 200, CloseHandle 204, WSACleanup])"
  by (simp add: WinMain_unfold ctor_sample Run_demoOS RDOLauncher_dtor_def Cleanup_def
      runningLauncher_def backendInfo_def frontendInfo_def demo_paths)

text \<open>
  A launch that goes well (the backend is terminated after the wait on the frontend's
  handle 200), and one whose frontend cannot be started (the backend is terminated after
  the dialog).
\<close>

theorem launch_order_witness:
  "demoLauncher = fst (RDOLauncher_ctor demoOS)
   \<and> \<not> null_frontend demoOS demoLauncher
   \<and> frontend_handle demoOS demoLauncher = 200
   \<and> filter is_terminate (snd (WinMain demoOS)) = [TerminateProcess 100 0]
   \<and> precedes (frontend_over 200) is_terminate (snd (WinMain demoOS))
   \<and> filter (spawn_of (frontendCmdLine demoLauncher)) (snd (WinMain demoOS)) \<noteq> []
   \<and> \<not> isl (CreateProcessW demoOS (backendCmdLine demoLauncher) (installPath demoLauncher))
   \<and> precedes port_verdict (spawn_of (frontendCmdLine demoLauncher)) (snd (WinMain demoOS))
   \<and> demoLauncher = fst (RDOLauncher_ctor noFrontendOS)
   \<and> \<not> null_frontend noFrontendOS demoLauncher
   \<and> filter is_terminate (snd (WinMain noFrontendOS)) \<noteq> []
   \<and> (fst (WinMain noFrontendOS) = Some 0 \<or> fst (WinMain noFrontendOS) = Some 3)
   \<and> precedes (frontend_over (frontend_handle noFrontendOS demoLauncher)) is_terminate
        (snd (WinMain noFrontendOS))
   \<and> filter (spawn_of (frontendCmdLine demoLauncher)) (snd (WinMain noFrontendOS)) \<noteq> []
   \<and> \<not> isl (CreateProcessW noFrontendOS (backendCmdLine demoLauncher)
              (installPath demoLauncher))"
proof -
  have L1: "demoLauncher = fst (RDOLauncher_ctor demoOS)"
    by (simp add: ctor_sample)
  have n1: "\<not> null_frontend demoOS demoLauncher"
    by (simp add: null_frontend_def demoOS_sel frontendInfo_def)
  have h1: "frontend_handle demoOS demoLauncher = 200"
    by (simp add: frontend_handle_def demoOS_sel frontendInfo_def)
  have t1: "filter is_terminate (snd (WinMain demoOS)) = [TerminateProcess 100 0]"
    by (simp add: WinMain_demoOS readyLine_def)
  have s1: "filter (spawn_of (frontendCmdLine demoLauncher)) (snd (WinMain demoOS)) \<noteq> []"
    by (simp add: WinMain_demoOS readyLine_def)
  have L2: "demoLauncher = fst (RDOLauncher_ctor noFrontendOS)"
    by (simp add: ctor_sample)
  have n2: "\<not> null_frontend noFrontendOS demoLauncher"
    by (simp add: null_frontend_def noFrontendOS_sel)
  have t2: "filter is_terminate (snd (WinMain noFrontendOS)) \<noteq> []"
    using WaitForPort_quiet [of _ noFrontendOS 5000 30] quiet_kinds
    by (simp add: WinMain_unfold ctor_sample Run_noFrontendOS RDOLauncher_dtor_def
        Cleanup_def backendInfo_def)
  have s2: "filter (spawn_of (frontendCmdLine demoLauncher)) (snd (WinMain noFrontendOS)) \<noteq> []"
    by (simp add: WinMain_unfold ctor_sample Run_noFrontendOS)
  have a: "precedes (frontend_over 200) is_terminate (snd (WinMain demoOS))
      \<and> \<not> isl (CreateProcessW demoOS (backendCmdLine demoLauncher) (installPath demoLauncher))
      \<and> precedes port_verdict (spawn_of (frontendCmdLine demoLauncher)) (snd (WinMain demoOS))"
    using launch_order [OF L1, of demoLauncher] n1 s1 unfolding h1 by blast
  have b: "(fst (WinMain noFrontendOS) = Some 0 \<or> fst (WinMain noFrontendOS) = Some 3)
      \<and> precedes (frontend_over (frontend_handle noFrontendOS demoLauncher)) is_terminate
           (snd (WinMain noFrontendOS))
      \<and> \<not> isl (CreateProcessW noFrontendOS (backendCmdLine demoLauncher)
                 (installPath demoLauncher))"
    using launch_order [OF L2, of demoLauncher] n2 t2 s2 by blast
  show ?thesis
    using L1 n1 h1 t1 s1 L2 n2 t2 s2 a b by blast
qed

subsection \<open>The two process records\<close>

lemma Run_state:
  "installPath (fst (snd (Run w L))) = installPath L"
  "backendCmdLine (fst (snd (Run w L))) = backendCmdLine L"
  "frontendCmdLine (fst (snd (Run w L))) = frontendCmdLine L"
  by (cases rule: Run_shape [of w L]; simp)+

lemma Run_owned: "records_owned w L \<Longrightarrow> records_owned w (fst (snd (Run w L)))"
  by (cases rule: Run_shape [of w L]) (simp_all add: records_owned_def owned_def)

lemma Cleanup_owned_releases:
  assumes "records_owned w L"
  shows "set (concat (map released (snd (Cleanup L))))
           \<subseteq> set (handles_of (CreateProcessW w (backendCmdLine L) (installPath L)) @
                  handles_of (CreateProcessW w (frontendCmdLine L) (installPath L)))"
proof -
  have b: "hProcess (backendProcess L) \<noteq> 0 \<Longrightarrow>
           CreateProcessW w (backendCmdLine L) (installPath L) = Inr (backendProcess L)"
    using assms by (auto simp: records_owned_def owned_def zeroProcess_def)
  have f: "hProcess (frontendProcess L) \<noteq> 0 \<Longrightarrow>
           CreateProcessW w (frontendCmdLine L) (installPath L) = Inr (frontendProcess L)"
    using assms by (auto simp: records_owned_def owned_def zeroProcess_def)
  show ?thesis
    using b f by (auto simp: Cleanup_def)
qed

text \<open>
  Claim C9. Each of the two process records is either still zero or what a successful
  \<open>CreateProcessW\<close> wrote for its command line: this holds after the constructor and is
  kept by \<open>StartBackend\<close>, \<open>StartFrontend\<close>, \<open>Run\<close> and \<open>Cleanup\<close>; a failed spawn leaves
  the launcher as it was. So \<open>Cleanup\<close>, and with it the whole execution, terminates and
  closes only handles that a successful spawn handed out.
\<close>

theorem records_hold_spawned_handles:
  "records_owned w (fst (RDOLauncher_ctor w))
   \<and> (records_owned w L \<longrightarrow>
        records_owned w (fst (snd (StartBackend w L))) \<and>
        records_owned w (fst (snd (StartFrontend w L))) \<and>
        records_owned w (fst (snd (Run w L))) \<and>
        records_owned w (fst (Cleanup L)) \<and>
        set (concat (map released (snd (Cleanup L))))
          \<subseteq> set (handles_of (CreateProcessW w (backendCmdLine L) (installPath L)) @
                 handles_of (CreateProcessW w (frontendCmdLine L) (installPath L))))
   \<and> (isl (CreateProcessW w (backendCmdLine L) (installPath L)) \<longrightarrow>
        fst (snd (StartBackend w L)) = L)
   \<and> (isl (CreateProcessW w (frontendCmdLine L) (installPath L)) \<longrightarrow>
        fst (snd (StartFrontend w L)) = L)
   \<and> (L = fst (RDOLauncher_ctor w) \<longrightarrow>
        set (concat (map released (snd (WinMain w))))
          \<subseteq> set (handles_of (CreateProcessW w (backendCmdLine L) (installPath L)) @
                 handles_of (CreateProcessW w (frontendCmdLine L) (installPath L))))"
proof -
  have init: "records_owned w (fst (RDOLauncher_ctor w))"
    by (simp add: records_owned_def owned_def ctor_state)
  have sb: "records_owned w (fst (snd (StartBackend w L)))" if "records_owned w L"
    using that
    by (cases "CreateProcessW w (backendCmdLine L) (installPath L)")
       (simp_all add: StartBackend_failed StartBackend_succeeded records_owned_def owned_def)
  have sf: "records_owned w (fst (snd (StartFrontend w L)))" if "records_owned w L"
    using that
    by (cases "CreateProcessW w (frontendCmdLine L) (installPath L)")
       (simp_all add: StartFrontend_failed StartFrontend_succeeded records_owned_def owned_def)
  have cl: "records_owned w (fst (Cleanup L))" if "records_owned w L"
    using that by (simp add: Cleanup_def)
  have fb: "isl (CreateProcessW w (backendCmdLine L) (installPath L)) \<longrightarrow>
        fst (snd (StartBackend w L)) = L"
    by (cases "CreateProcessW w (backendCmdLine L) (installPath L)")
       (simp_all add: StartBackend_failed)
  have ff: "isl (CreateProcessW w (frontendCmdLine L) (installPath L)) \<longrightarrow>
        fst (snd (StartFrontend w L)) = L"
    by (cases "CreateProcessW w (frontendCmdLine L) (installPath L)")
       (simp_all add: StartFrontend_failed)
  have whole: "set (concat (map released (snd (WinMain w))))
          \<subseteq> set (handles_of (CreateProcessW w (backendCmdLine L) (installPath L)) @
                 handles_of (CreateProcessW w (frontendCmdLine L) (installPath L)))"
    if L: "L = fst (RDOLauncher_ctor w)"
  proof -
    let ?L' = "fst (snd (Run w L))"
    have c: "concat (map released (snd (RDOLauncher_ctor w))) = []"
      by (simp add: RDOLauncher_ctor_def Let_def)
    have r: "concat (map released (snd (snd (Run w L)))) = []"
      using Run_releases_nothing [of _ w L] by simp
    have d: "concat (map released (RDOLauncher_dtor ?L')) = concat (map released (snd (Cleanup ?L')))"
      by (simp add: RDOLauncher_dtor_def)
    have "records_owned w ?L'"
      using init Run_owned unfolding L by blast
    from Cleanup_owned_releases [OF this]
    have "set (concat (map released (snd (Cleanup ?L'))))
            \<subseteq> set (handles_of (CreateProcessW w (backendCmdLine L) (installPath L)) @
                   handles_of (CreateProcessW w (frontendCmdLine L) (installPath L)))"
      by (simp add: Run_state)
    moreover have "concat (map released (snd (WinMain w))) =
        (if fst (Run w L) = None then [] else concat (map released (snd (Cleanup ?L'))))"
      unfolding WinMain_unfold L [symmetric] by (simp add: c r d)
    ultimately show ?thesis
      by (cases "fst (Run w L) = None") simp_all
  qed
  show ?thesis
    using init sb sf Run_owned cl Cleanup_owned_releases fb ff whole by blast
qed

theorem records_hold_spawned_handles_witness:
  "records_owned noBackendOS demoLauncher
   \<and> isl (CreateProcessW noBackendOS (backendCmdLine demoLauncher) (installPath demoLauncher))
   \<and> isl (CreateProcessW noBackendOS (frontendCmdLine demoLauncher) (installPath demoLauncher))
   \<and> demoLauncher = fst (RDOLauncher_ctor noBackendOS)
   \<and> fst (snd (StartBackend noBackendOS demoLauncher)) = demoLauncher
   \<and> fst (snd (StartFrontend noBackendOS demoLauncher)) = demoLauncher
   \<and> records_owned noBackendOS (fst (snd (Run noBackendOS demoLauncher)))
   \<and> concat (map released (snd (WinMain noBackendOS))) = []"
  using records_hold_spawned_handles [of noBackendOS demoLauncher]
  by (simp add: ctor_sample noBackendOS_sel)

end
